theory Spec2Isabelle
  imports Complex_Main "HOL-Library.DAList" "HOL-Library.Word"
begin

section \<open>The resource estimator of \<^verbatim>\<open>pkg/estimator/estimator.go\<close>\<close>

text \<open>
  The embedding follows the Go source function by function. Conventions:
  \<^item> a sample a caller records is a finite \<^verbatim>\<open>float64\<close>, denoted by the real number it is
    (recording NaN or an infinity is outside the model); what the code computes from the
    samples by \<^verbatim>\<open>float64\<close> arithmetic is a value of the type \<open>float64\<close> below, in which every
    operation rounds to the nearest representable number, ties to even, overflows to an
    infinity and can produce NaN, as IEEE 754 binary64 does;
  \<^item> a \<^verbatim>\<open>time.Time\<close> is an integer count of nanoseconds on one time line whose origin is
    Go's zero \<^verbatim>\<open>Time\<close>; a \<^verbatim>\<open>time.Duration\<close> is the 64-bit signed integer it is in Go;
  \<^item> \<^verbatim>\<open>time.Now()\<close> is an input: every operation that reads the clock takes the reading
    as its first argument;
  \<^item> the locks are left out (the model is sequential), and so are the calls to the logger,
    which return nothing and change nothing the estimator reads;
  \<^item> a method of \<^verbatim>\<open>*GroupHistory\<close> or \<^verbatim>\<open>*Estimator\<close> that mutates its receiver returns the
    new receiver; the two read-only methods of \<^verbatim>\<open>*Estimator\<close> return the receiver beside
    their result, so that what they leave unchanged can be stated;
  \<^item> a runtime panic is a value of the error type.
\<close>

subsection \<open>Time\<close>

type_synonym Time = int

type_synonym Duration = "64 word"

definition zero_Time :: Time where
  "zero_Time = 0"

definition Add :: "Time \<Rightarrow> Duration \<Rightarrow> Time" where
  "Add t d = t + sint d"

definition Before :: "Time \<Rightarrow> Time \<Rightarrow> bool" where
  "Before t u = (t < u)"

subsection \<open>\<^verbatim>\<open>float64\<close> arithmetic\<close>

text \<open>
  A \<^verbatim>\<open>float64\<close> is a finite number \<open>m \<times> 2\<^sup>q\<close> with \<open>\<bar>m\<bar> < 2\<^sup>5\<^sup>3\<close> and
  \<open>-1074 \<le> q \<le> 971\<close>, an infinity or NaN. The two zeros are one value: the sign of a zero
  shows in none of the results of the package.
\<close>

datatype float64 = Finite real | PosInf | NegInf | NaN

text \<open>
  The binary exponent of a positive number, kept within the exponents of binary64
  (\<open>-1022\<close> for the subnormal numbers, at most \<open>1023\<close>), found by counting up from \<open>-1022\<close>.
\<close>

fun exp_search :: "nat \<Rightarrow> int \<Rightarrow> real \<Rightarrow> int" where
  "exp_search 0 e a = e"
| "exp_search (Suc k) e a = (if 2 powi (e + 1) \<le> a then exp_search k (e + 1) a else e)"

definition exponent :: "real \<Rightarrow> int" where
  "exponent a = exp_search 2045 (- 1022) a"

text \<open>Rounding to the nearest integer, a tie going to the even one.\<close>

definition rne :: "real \<Rightarrow> int" where
  "rne y =
     (let f = \<lfloor>y\<rfloor>; d = y - of_int f
      in if d < 1 / 2 then f else if 1 / 2 < d then f + 1 else if even f then f else f + 1)"

text \<open>
  The rounding every operation ends with: the exact result is rounded to 53 significant
  bits at its exponent, and a rounded magnitude of \<open>2\<^sup>1\<^sup>0\<^sup>2\<^sup>4\<close> or more is an infinity.
\<close>

definition round64 :: "real \<Rightarrow> float64" where
  "round64 x =
     (if x = 0 then Finite 0
      else
        (let a = \<bar>x\<bar>;
             ulp = 2 powi (exponent a - 52);
             r = of_int (rne (a / ulp)) * ulp
         in if 2 powi 1024 \<le> r then (if 0 < x then PosInf else NegInf)
            else Finite (if 0 < x then r else - r)))"

fun fadd :: "float64 \<Rightarrow> float64 \<Rightarrow> float64" where
  "fadd (Finite a) (Finite b) = round64 (a + b)"
| "fadd NaN y = NaN"
| "fadd x NaN = NaN"
| "fadd PosInf NegInf = NaN"
| "fadd NegInf PosInf = NaN"
| "fadd PosInf y = PosInf"
| "fadd x PosInf = PosInf"
| "fadd NegInf y = NegInf"
| "fadd x NegInf = NegInf"

fun fmul :: "float64 \<Rightarrow> float64 \<Rightarrow> float64" where
  "fmul (Finite a) (Finite b) = round64 (a * b)"
| "fmul NaN y = NaN"
| "fmul x NaN = NaN"
| "fmul (Finite a) PosInf = (if a = 0 then NaN else if 0 < a then PosInf else NegInf)"
| "fmul (Finite a) NegInf = (if a = 0 then NaN else if 0 < a then NegInf else PosInf)"
| "fmul PosInf (Finite b) = (if b = 0 then NaN else if 0 < b then PosInf else NegInf)"
| "fmul NegInf (Finite b) = (if b = 0 then NaN else if 0 < b then NegInf else PosInf)"
| "fmul PosInf PosInf = PosInf"
| "fmul PosInf NegInf = NegInf"
| "fmul NegInf PosInf = NegInf"
| "fmul NegInf NegInf = PosInf"

text \<open>Division; a zero divisor counts as \<open>+0\<close> (the code divides by a count of at least 1).\<close>

fun fdiv :: "float64 \<Rightarrow> float64 \<Rightarrow> float64" where
  "fdiv (Finite a) (Finite b) =
     (if b = 0 then (if a = 0 then NaN else if 0 < a then PosInf else NegInf)
      else round64 (a / b))"
| "fdiv NaN y = NaN"
| "fdiv x NaN = NaN"
| "fdiv (Finite a) y = Finite 0"
| "fdiv PosInf (Finite b) = (if 0 \<le> b then PosInf else NegInf)"
| "fdiv NegInf (Finite b) = (if 0 \<le> b then NegInf else PosInf)"
| "fdiv x y = NaN"

text \<open>The comparison \<^verbatim>\<open>x > y\<close>, false whenever an operand is NaN.\<close>

fun fgt :: "float64 \<Rightarrow> float64 \<Rightarrow> bool" where
  "fgt (Finite a) (Finite b) = (b < a)"
| "fgt NaN y = False"
| "fgt x NaN = False"
| "fgt PosInf PosInf = False"
| "fgt PosInf y = True"
| "fgt x PosInf = False"
| "fgt NegInf y = False"
| "fgt x NegInf = True"

text \<open>
  The fused multiply-add \<open>x \<times> y + z\<close>, rounded once. With an operand that is not finite the
  product and the sum are exact, so only an overflowing product makes a difference: the
  exact product of two finite numbers is finite.
\<close>

fun fma :: "float64 \<Rightarrow> float64 \<Rightarrow> float64 \<Rightarrow> float64" where
  "fma (Finite a) (Finite b) (Finite c) = round64 (a * b + c)"
| "fma (Finite a) (Finite b) z = z"
| "fma x y z = fadd (fmul x y) z"

subsection \<open>Usage samples and the bounded history of one group\<close>

record ResourceUsage =
  Timestamp :: Time
  CPU :: real
  Memory :: real
  GPU :: real

text \<open>The composite literal \<^verbatim>\<open>ResourceUsage{}\<close>: every field has its zero value.\<close>

definition zero_ResourceUsage :: ResourceUsage where
  "zero_ResourceUsage = \<lparr>Timestamp = zero_Time, CPU = 0, Memory = 0, GPU = 0\<rparr>"

record GroupHistory =
  GroupName :: string
  Namespace :: string
  History :: "ResourceUsage list"
  maxSize :: int

datatype error =
    NotFoundError string
  | PanicMakeslice

text \<open>
  \<^verbatim>\<open>make([]ResourceUsage, 0, maxSize)\<close> panics at run time (``makeslice: cap out of
  range'') when the capacity is negative. Exhaustion of memory by a very large capacity is
  outside the model.
\<close>

definition NewGroupHistory :: "string \<Rightarrow> string \<Rightarrow> int \<Rightarrow> error + GroupHistory" where
  "NewGroupHistory groupName namespace capacity =
     (if capacity < 0 then Inl PanicMakeslice
      else Inr \<lparr>GroupName = groupName, Namespace = namespace, History = [], maxSize = capacity\<rparr>)"

definition AddUsage :: "Time \<Rightarrow> real \<Rightarrow> real \<Rightarrow> real \<Rightarrow> GroupHistory \<Rightarrow> GroupHistory" where
  "AddUsage now cpu memory gpu gh =
     (let usage = \<lparr>Timestamp = now, CPU = cpu, Memory = memory, GPU = gpu\<rparr>;
          gh1 = gh\<lparr>History := History gh @ [usage]\<rparr>
      in if int (length (History gh1)) > maxSize gh1
         then gh1\<lparr>History := tl (History gh1)\<rparr>
         else gh1)"

text \<open>
  The value \<open>GetAverage\<close> returns is a \<^verbatim>\<open>ResourceUsage\<close> whose fields are results of
  \<^verbatim>\<open>float64\<close> arithmetic, which need not be finite.
\<close>

record ResourceUsage64 =
  Timestamp64 :: Time
  CPU64 :: float64
  Memory64 :: float64
  GPU64 :: float64

definition zero_ResourceUsage64 :: ResourceUsage64 where
  "zero_ResourceUsage64 =
     \<lparr>Timestamp64 = zero_Time, CPU64 = Finite 0, Memory64 = Finite 0, GPU64 = Finite 0\<rparr>"

text \<open>The body of the loop of \<^verbatim>\<open>GetAverage\<close>, on the three running totals.\<close>

fun total_step ::
  "ResourceUsage \<Rightarrow> float64 \<times> float64 \<times> float64 \<Rightarrow> float64 \<times> float64 \<times> float64" where
  "total_step usage (totalCPU, totalMem, totalGPU) =
     (fadd totalCPU (Finite (CPU usage)), fadd totalMem (Finite (Memory usage)),
      fadd totalGPU (Finite (GPU usage)))"

text \<open>\<^verbatim>\<open>float64(len(gh.History))\<close> is the length rounded to a \<^verbatim>\<open>float64\<close>.\<close>

definition GetAverage :: "GroupHistory \<Rightarrow> ResourceUsage64" where
  "GetAverage gh =
     (if length (History gh) = 0 then zero_ResourceUsage64
      else
        (case fold total_step (History gh) (Finite 0, Finite 0, Finite 0) of
           (totalCPU, totalMem, totalGPU) \<Rightarrow>
             (let count = round64 (real (length (History gh)))
              in \<lparr>Timestamp64 = zero_Time, CPU64 = fdiv totalCPU count,
                   Memory64 = fdiv totalMem count, GPU64 = fdiv totalGPU count\<rparr>)))"

text \<open>
  The running total of \<open>GetAverage\<close> in one dimension, and the condition under which
  none of its additions rounds: every partial sum is a \<^verbatim>\<open>float64\<close>.
\<close>

definition running_total :: "real list \<Rightarrow> float64" where
  "running_total xs = fold (\<lambda>x total. fadd total (Finite x)) xs (Finite 0)"

fun sums_exact :: "real \<Rightarrow> real list \<Rightarrow> bool" where
  "sums_exact t [] = True"
| "sums_exact t (x # xs) = (round64 (t + x) = Finite (t + x) \<and> sums_exact (t + x) xs)"

text \<open>The body of the loop of \<^verbatim>\<open>GetPeak\<close>: three independent comparisons.\<close>

definition peak_step :: "ResourceUsage \<Rightarrow> ResourceUsage \<Rightarrow> ResourceUsage" where
  "peak_step usage peak =
     (let p1 = (if CPU usage > CPU peak then peak\<lparr>CPU := CPU usage\<rparr> else peak);
          p2 = (if Memory usage > Memory p1 then p1\<lparr>Memory := Memory usage\<rparr> else p1);
          p3 = (if GPU usage > GPU p2 then p2\<lparr>GPU := GPU usage\<rparr> else p2)
      in p3)"

definition GetPeak :: "GroupHistory \<Rightarrow> ResourceUsage" where
  "GetPeak gh =
     (case History gh of
        [] \<Rightarrow> zero_ResourceUsage
      | first # rest \<Rightarrow> fold peak_step (History gh) first)"

subsection \<open>Quantities and resource lists of the Kubernetes API\<close>

text \<open>
  \<^verbatim>\<open>resource.Quantity\<close> and \<^verbatim>\<open>corev1.ResourceList\<close> belong to the Kubernetes libraries the
  package imports. A quantity built by \<^verbatim>\<open>NewQuantity\<close> or \<^verbatim>\<open>NewMilliQuantity\<close> holds a 64-bit
  integer, a decimal scale (\<open>-3\<close> for milli-units, \<open>0\<close> for units) and a display format; a
  resource list is a map from resource names to quantities.
\<close>

datatype Format = DecimalSI | BinarySI

record Quantity =
  amount :: "64 word"
  scale :: int
  format :: Format

definition NewQuantity :: "64 word \<Rightarrow> Format \<Rightarrow> Quantity" where
  "NewQuantity v f = \<lparr>amount = v, scale = 0, format = f\<rparr>"

definition NewMilliQuantity :: "64 word \<Rightarrow> Format \<Rightarrow> Quantity" where
  "NewMilliQuantity v f = \<lparr>amount = v, scale = - 3, format = f\<rparr>"

type_synonym ResourceList = "string \<rightharpoonup> Quantity"

definition ResourceCPU :: string where
  "ResourceCPU = ''cpu''"

definition ResourceMemory :: string where
  "ResourceMemory = ''memory''"

definition ResourceGPU :: string where
  "ResourceGPU = ''nvidia.com/gpu''"

text \<open>
  The conversion \<^verbatim>\<open>int64(x)\<close> of a \<^verbatim>\<open>float64\<close> discards the fraction (truncation towards
  zero). When \<open>x\<close> is not finite or the truncated value does not fit 64 bits, Go leaves the
  result to the implementation: that result is the parameter \<open>oor\<close>.
\<close>

definition trunc :: "real \<Rightarrow> int" where
  "trunc x = (if 0 \<le> x then \<lfloor>x\<rfloor> else \<lceil>x\<rceil>)"

definition int64 :: "(float64 \<Rightarrow> 64 word) \<Rightarrow> float64 \<Rightarrow> 64 word" where
  "int64 oor f =
     (case f of
        Finite x \<Rightarrow>
          if - (2 ^ 63) \<le> trunc x \<and> trunc x < 2 ^ 63 then word_of_int (trunc x) else oor f
      | _ \<Rightarrow> oor f)"

text \<open>
  Go lets an implementation fuse \<open>x \<times> y + z\<close> into one operation that rounds once. In
  \<^verbatim>\<open>avg*0.7 + peak*0.3\<close> it may round both products (\<open>Separate\<close>), fuse the product with the
  average into the sum, or fuse the product with the peak. The constants \<^verbatim>\<open>0.7\<close> and \<^verbatim>\<open>0.3\<close>
  are the \<^verbatim>\<open>float64\<close> values nearest to them.
\<close>

datatype fusing = Separate | FuseAverage | FusePeak

definition weighted :: "fusing \<Rightarrow> float64 \<Rightarrow> float64 \<Rightarrow> float64" where
  "weighted fu avg peak =
     (case fu of
        Separate \<Rightarrow> fadd (fmul avg (round64 0.7)) (fmul peak (round64 0.3))
      | FuseAverage \<Rightarrow> fma avg (round64 0.7) (fmul peak (round64 0.3))
      | FusePeak \<Rightarrow> fma peak (round64 0.3) (fmul avg (round64 0.7)))"

text \<open>
  What the language leaves to the implementation. The default \<^verbatim>\<open>amd64\<close> port fuses nothing,
  and its conversion instruction yields the least \<^verbatim>\<open>int64\<close> when the value does not fit.
\<close>

record platform =
  oor :: "float64 \<Rightarrow> 64 word"
  fuse :: fusing

definition amd64 :: platform where
  "amd64 = \<lparr>oor = (\<lambda>f. - (2 ^ 63)), fuse = Separate\<rparr>"

subsection \<open>The estimator\<close>

record Estimator =
  histories :: "(string, GroupHistory) alist"
  e_maxSize :: int

definition NewEstimator :: "int \<Rightarrow> Estimator" where
  "NewEstimator maxHistorySize = \<lparr>histories = DAList.empty, e_maxSize = maxHistorySize\<rparr>"

text \<open>The registry key \<^verbatim>\<open>fmt.Sprintf("%s/%s", namespace, groupName)\<close>.\<close>

definition key_of :: "string \<Rightarrow> string \<Rightarrow> string" where
  "key_of namespace groupName = namespace @ ''/'' @ groupName"

definition RecordUsage ::
  "Time \<Rightarrow> string \<Rightarrow> string \<Rightarrow> real \<Rightarrow> real \<Rightarrow> real \<Rightarrow> Estimator \<Rightarrow> error + Estimator" where
  "RecordUsage now namespace groupName cpu memory gpu e =
     (let key = key_of namespace groupName in
      case (case DAList.lookup (histories e) key of
              Some history \<Rightarrow> Inr history
            | None \<Rightarrow> NewGroupHistory groupName namespace (e_maxSize e)) of
        Inl err \<Rightarrow> Inl err
      | Inr history \<Rightarrow>
          Inr (e\<lparr>histories := DAList.update key (AddUsage now cpu memory gpu history) (histories e)\<rparr>))"

definition EstimateResources ::
  "platform \<Rightarrow> string \<Rightarrow> string \<Rightarrow> Estimator \<Rightarrow> (error + ResourceList) \<times> Estimator" where
  "EstimateResources pf namespace groupName e =
     (let key = key_of namespace groupName in
      case DAList.lookup (histories e) key of
        None \<Rightarrow> (Inl (NotFoundError (''no history found for '' @ key)), e)
      | Some history \<Rightarrow>
          (let avg = GetAverage history;
               peak = GetPeak history;
               estimatedCPU = weighted (fuse pf) (CPU64 avg) (Finite (CPU peak));
               estimatedMem = weighted (fuse pf) (Memory64 avg) (Finite (Memory peak));
               estimatedGPU = weighted (fuse pf) (GPU64 avg) (Finite (GPU peak));
               resources = [ResourceCPU \<mapsto> NewMilliQuantity
                                (int64 (oor pf) (fmul estimatedCPU (round64 1000))) DecimalSI,
                            ResourceMemory \<mapsto> NewQuantity (int64 (oor pf) estimatedMem) BinarySI];
               resources1 = (if fgt estimatedGPU (Finite 0)
                             then resources(ResourceGPU \<mapsto>
                                    NewQuantity (int64 (oor pf) estimatedGPU) DecimalSI)
                             else resources)
           in (Inr resources1, e)))"

definition GetHistory ::
  "string \<Rightarrow> string \<Rightarrow> Estimator \<Rightarrow> (GroupHistory option \<times> bool) \<times> Estimator" where
  "GetHistory namespace groupName e =
     (let key = key_of namespace groupName in
      case DAList.lookup (histories e) key of
        None \<Rightarrow> ((None, False), e)
      | Some history \<Rightarrow> ((Some history, True), e))"

text \<open>
  The test of the sweep: the history has a sample and its last sample is older than the
  cutoff.
\<close>

definition stale :: "Time \<Rightarrow> GroupHistory \<Rightarrow> bool" where
  "stale cutoff history =
     (length (History history) > 0 \<and> Before (Timestamp (last (History history))) cutoff)"

text \<open>
  The loop of \<^verbatim>\<open>CleanOldHistory\<close> over the entries of the map. Go visits the entries in an
  unspecified order; the model visits them in the order of the association list. Deleting
  the entry being visited is all the loop does to the map, so every entry is visited once.
\<close>

fun clean_loop ::
  "Time \<Rightarrow> (string \<times> GroupHistory) list \<Rightarrow> (string, GroupHistory) alist \<Rightarrow> nat \<Rightarrow>
     (string, GroupHistory) alist \<times> nat" where
  "clean_loop cutoff [] hs removed = (hs, removed)"
| "clean_loop cutoff ((key, history) # entries) hs removed =
     (if stale cutoff history
      then clean_loop cutoff entries (DAList.delete key hs) (removed + 1)
      else clean_loop cutoff entries hs removed)"

definition CleanOldHistory :: "Time \<Rightarrow> Duration \<Rightarrow> Estimator \<Rightarrow> Estimator \<times> nat" where
  "CleanOldHistory now maxAge e =
     (let cutoff = Add now (- maxAge) in
      case clean_loop cutoff (DAList.impl_of (histories e)) (histories e) 0 of
        (hs, removed) \<Rightarrow> (e\<lparr>histories := hs\<rparr>, removed))"

subsection \<open>Sequences of calls\<close>

text \<open>
  The sample a call \<^verbatim>\<open>AddUsage(cpu, memory, gpu)\<close> made at time \<open>now\<close> appends, and a sequence
  of such calls applied to one history, first call first.
\<close>

definition usage_of :: "Time \<times> real \<times> real \<times> real \<Rightarrow> ResourceUsage" where
  "usage_of call = (case call of (now, cpu, memory, gpu) \<Rightarrow>
     \<lparr>Timestamp = now, CPU = cpu, Memory = memory, GPU = gpu\<rparr>)"

definition AddUsages :: "(Time \<times> real \<times> real \<times> real) list \<Rightarrow> GroupHistory \<Rightarrow> GroupHistory" where
  "AddUsages calls gh = fold (\<lambda>(now, cpu, memory, gpu). AddUsage now cpu memory gpu) calls gh"

subsection \<open>Sequences of calls on an estimator\<close>

text \<open>
  A caller's sequence of recording and sweeping calls, run in order on one estimator; a
  panic ends the run. \<open>estimate_after\<close> asks for an estimate at the end of such a run, as
  the tests of the package do.
\<close>

datatype call =
    Record_Usage Time string string real real real
  | Clean_Old_History Time Duration

fun run :: "call list \<Rightarrow> Estimator \<Rightarrow> error + Estimator" where
  "run [] e = Inr e"
| "run (Record_Usage now namespace groupName cpu memory gpu # calls) e =
     (case RecordUsage now namespace groupName cpu memory gpu e of
        Inl err \<Rightarrow> Inl err
      | Inr e' \<Rightarrow> run calls e')"
| "run (Clean_Old_History now maxAge # calls) e = run calls (fst (CleanOldHistory now maxAge e))"

definition estimate_after ::
  "platform \<Rightarrow> call list \<Rightarrow> string \<Rightarrow> string \<Rightarrow> Estimator \<Rightarrow> error + ResourceList" where
  "estimate_after pf calls namespace groupName e =
     (case run calls e of
        Inl err \<Rightarrow> Inl err
      | Inr e' \<Rightarrow> fst (EstimateResources pf namespace groupName e'))"




subsection \<open>States of the package's test scenarios\<close>

text \<open>
  The estimator after the three recordings of the weighted-average test; an estimator that
  recorded a group without accelerators; the estimator of capacity 0 after one recording,
  whose history holds no sample; an estimator that recorded one sample; an estimator that
  recorded the accelerator counts -13 and 7 (the package accepts negative values); an
  estimator with a group last recorded at time 0 and a group recorded 47 hours later (times in
  nanoseconds); the estimator that recorded only the first of these two groups, after a
  sweep has removed it; and the estimator of the example in the package's documentation,
  three runs of 1000, 1500 and 2000 CPU with 1, 2 and 2 accelerators, whose memory of 4, 6
  and 8 GB is written 4096, 6144 and 8192.
\<close>

definition test_history :: GroupHistory where
  "test_history =
     \<lparr>GroupName = ''test'', Namespace = ''default'',
      History = [usage_of (1, 1000, 2000, 1), usage_of (2, 1000, 2000, 1), usage_of (3, 2000, 4000, 2)],
      maxSize = 10\<rparr>"

definition test_estimator :: Estimator where
  "test_estimator =
     \<lparr>histories = DAList.update ''default/test'' test_history DAList.empty, e_maxSize = 10\<rparr>"

definition batch_history :: GroupHistory where
  "batch_history =
     \<lparr>GroupName = ''batch'', Namespace = ''default'',
      History = [usage_of (1, 100, 2048, 0), usage_of (2, 150, 3072, 0)],
      maxSize = 10\<rparr>"

definition batch_estimator :: Estimator where
  "batch_estimator =
     \<lparr>histories = DAList.update ''default/batch'' batch_history DAList.empty, e_maxSize = 10\<rparr>"

definition empty_history :: GroupHistory where
  "empty_history = \<lparr>GroupName = ''group1'', Namespace = ''default'', History = [], maxSize = 0\<rparr>"

definition empty_estimator :: Estimator where
  "empty_estimator =
     \<lparr>histories = DAList.update ''default/group1'' empty_history DAList.empty, e_maxSize = 0\<rparr>"

definition single_history :: "real \<Rightarrow> real \<Rightarrow> real \<Rightarrow> GroupHistory" where
  "single_history cpu memory gpu =
     \<lparr>GroupName = ''test'', Namespace = ''default'',
      History = [usage_of (1, cpu, memory, gpu)], maxSize = 10\<rparr>"

definition single_estimator :: "real \<Rightarrow> real \<Rightarrow> real \<Rightarrow> Estimator" where
  "single_estimator cpu memory gpu =
     \<lparr>histories = DAList.update ''default/test'' (single_history cpu memory gpu) DAList.empty,
      e_maxSize = 10\<rparr>"

definition mixed_history :: GroupHistory where
  "mixed_history =
     \<lparr>GroupName = ''test'', Namespace = ''default'',
      History = [usage_of (1, 0, 0, - 13), usage_of (2, 0, 0, 7)], maxSize = 10\<rparr>"

definition mixed_estimator :: Estimator where
  "mixed_estimator =
     \<lparr>histories = DAList.update ''default/test'' mixed_history DAList.empty, e_maxSize = 10\<rparr>"

definition old_history :: GroupHistory where
  "old_history =
     \<lparr>GroupName = ''group1'', Namespace = ''default'',
      History = [usage_of (0, 100, 2048, 1)], maxSize = 10\<rparr>"

definition fresh_history :: GroupHistory where
  "fresh_history =
     \<lparr>GroupName = ''group2'', Namespace = ''default'',
      History = [usage_of (169200000000000, 200, 4096, 0)], maxSize = 10\<rparr>"

definition sweep_estimator :: Estimator where
  "sweep_estimator =
     \<lparr>histories = DAList.update ''default/group2'' fresh_history
                    (DAList.update ''default/group1'' old_history DAList.empty),
      e_maxSize = 10\<rparr>"


definition doc_history :: GroupHistory where
  "doc_history =
     \<lparr>GroupName = ''ml-training'', Namespace = ''default'',
      History = [usage_of (1, 1000, 4096, 1), usage_of (2, 1500, 6144, 2),
                 usage_of (3, 2000, 8192, 2)],
      maxSize = 100\<rparr>"

definition doc_estimator :: Estimator where
  "doc_estimator =
     \<lparr>histories = DAList.update ''default/ml-training'' doc_history DAList.empty,
      e_maxSize = 100\<rparr>"

section \<open>Properties of \<^verbatim>\<open>float64\<close> arithmetic\<close>

lemma exp_search_stop: "\<not> 2 powi (e + 1) \<le> a \<Longrightarrow> exp_search k e a = e"
  by (cases k) simp_all

lemma exp_search_ge: "e \<le> exp_search k e a"
proof (induction k arbitrary: e)
  case 0
  show ?case by simp
next
  case (Suc k)
  show ?case using Suc [of "e + 1"] by simp
qed

lemma exp_search_le: "exp_search k e a \<le> e + int k"
proof (induction k arbitrary: e)
  case 0
  show ?case by simp
next
  case (Suc k)
  show ?case using Suc [of "e + 1"] by simp
qed

lemma exp_search_lower: "2 powi e \<le> a \<Longrightarrow> 2 powi (exp_search k e a) \<le> a"
  by (induction k arbitrary: e) simp_all

lemma exp_search_upper: "a < 2 powi (e + int k + 1) \<Longrightarrow> a < 2 powi (exp_search k e a + 1)"
proof (induction k arbitrary: e)
  case 0
  then show ?case by simp
next
  case (Suc k)
  show ?case
  proof (cases "2 powi (e + 1) \<le> a")
    case True
    have "a < 2 powi ((e + 1) + int k + 1)"
      using Suc.prems by (simp add: add.commute add.left_commute)
    from Suc.IH [OF this] True show ?thesis by simp
  next
    case False
    then show ?thesis by simp
  qed
qed

lemma exponent_range: "- 1022 \<le> exponent a" "exponent a \<le> 1023"
  using exp_search_ge [of "- 1022" 2045 a] exp_search_le [of 2045 "- 1022" a]
  by (simp_all add: exponent_def)

lemma exponent_lower: "2 powi (- 1022) \<le> a \<Longrightarrow> 2 powi (exponent a) \<le> a"
  unfolding exponent_def by (rule exp_search_lower)

lemma exponent_upper: "a < 2 powi 1024 \<Longrightarrow> a < 2 powi (exponent a + 1)"
  unfolding exponent_def by (rule exp_search_upper) simp

lemma powi2_less_cancel: "(2::real) powi m < 2 powi n \<Longrightarrow> m < n"
  by (rule ccontr) (simp add: not_less power_int_increasing leD)

lemma exponent_eq:
  assumes "- 1022 \<le> e" "e \<le> 1023" "2 powi e \<le> a" "a < 2 powi (e + 1)"
  shows "exponent a = e"
proof -
  have low: "(2::real) powi (- 1022) \<le> 2 powi e"
    using assms(1) by (intro power_int_increasing) simp_all
  have up: "(2::real) powi (e + 1) \<le> 2 powi 1024"
    using assms(2) by (intro power_int_increasing) simp_all
  have 1: "2 powi (exponent a) \<le> a"
    using low assms(3) by (intro exponent_lower) simp
  have 2: "a < 2 powi (exponent a + 1)"
    using up assms(4) by (intro exponent_upper) simp
  from 1 assms(4) have "exponent a < e + 1"
    by (intro powi2_less_cancel) simp
  moreover from 2 assms(3) have "e < exponent a + 1"
    by (intro powi2_less_cancel) simp
  ultimately show ?thesis by simp
qed

lemma exponent_subnormal: "a < 2 powi (- 1021) \<Longrightarrow> exponent a = - 1022"
  unfolding exponent_def by (rule exp_search_stop) simp


lemma rne_of_int: "rne (of_int n) = n"
  by (simp add: rne_def)

lemma rne_floor_le: "\<lfloor>y\<rfloor> \<le> rne y"
  by (simp add: rne_def Let_def)

lemma round64_0: "round64 0 = Finite 0"
  by (simp add: round64_def)

lemma no_overflow:
  assumes "e \<le> 1022" "n \<le> 2 ^ 53"
  shows "\<not> 2 powi 1024 \<le> real_of_int n * 2 powi (e - 52)"
proof -
  have "real_of_int n \<le> real_of_int (2 ^ 53)"
    using assms(2) by (simp only: of_int_le_iff)
  then have "real_of_int n * 2 powi (e - 52) \<le> 2 ^ 53 * 2 powi (e - 52)"
    by (intro mult_right_mono) simp_all
  also have "\<dots> = 2 powi (e + 1)"
    by (simp add: power_int_add power_int_diff)
  also have "\<dots> < 2 powi 1024"
    using assms(1) by (intro power_int_strict_increasing) simp_all
  finally show ?thesis by simp
qed

lemma round64_pos:
  assumes "0 < x" "- 1022 \<le> e" "e \<le> 1022" "2 powi e \<le> x" "x < 2 powi (e + 1)"
    and "rne (x / 2 powi (e - 52)) = n" "n \<le> 2 ^ 53"
    and "r = real_of_int n * 2 powi (e - 52)"
  shows "round64 x = Finite r"
proof -
  have "exponent \<bar>x\<bar> = e"
    using assms(1-5) by (intro exponent_eq) simp_all
  then show ?thesis
    using assms(1,6,8) no_overflow [OF assms(3,7)] by (simp add: round64_def Let_def)
qed

lemma round64_neg:
  assumes "x < 0" "- 1022 \<le> e" "e \<le> 1022" "2 powi e \<le> - x" "- x < 2 powi (e + 1)"
    and "rne (- x / 2 powi (e - 52)) = n" "n \<le> 2 ^ 53"
    and "r = - (real_of_int n * 2 powi (e - 52))"
  shows "round64 x = Finite r"
proof -
  have "exponent \<bar>x\<bar> = e"
    using assms(1-5) by (intro exponent_eq) simp_all
  then show ?thesis
    using assms(1,6,8) no_overflow [OF assms(3,7)] by (simp add: round64_def Let_def)
qed

lemma round64_exact:
  assumes x: "x = of_int m * 2 powi q" and m: "\<bar>m\<bar> < 2 ^ 53" and q: "- 1074 \<le> q"
    and fin: "\<bar>x\<bar> < 2 powi 1024"
  shows "round64 x = Finite x"
proof (cases "x = 0")
  case True
  then show ?thesis by (simp add: round64_0)
next
  case False
  let ?a = "\<bar>x\<bar>"
  let ?e = "exponent ?a"
  have a: "?a = of_int \<bar>m\<bar> * 2 powi q"
    by (simp add: x abs_mult)
  have pos: "0 < ?a" using False by simp
  have le: "?e - 52 \<le> q"
  proof (cases "2 powi (- 1022) \<le> ?a")
    case True
    then have "2 powi ?e \<le> ?a" by (rule exponent_lower)
    also have "?a < 2 ^ 53 * 2 powi q"
    proof -
      have "(of_int \<bar>m\<bar> :: real) < of_int (2 ^ 53)"
        using m by (simp only: of_int_less_iff)
      then show ?thesis unfolding a by (intro mult_strict_right_mono) simp_all
    qed
    also have "\<dots> = 2 powi (53 + q)"
      by (simp add: power_int_add)
    finally have "?e < 53 + q" by (rule powi2_less_cancel)
    then show ?thesis by simp
  next
    case False
    then have "?a < 2 powi (- 1021)"
      by (simp add: not_le)
    then have "?e = - 1022" by (rule exponent_subnormal)
    with q show ?thesis by simp
  qed
  define k where "k = nat (q - (?e - 52))"
  have q_eq: "q = (?e - 52) + int k"
    using le by (simp add: k_def)
  have "?a / 2 powi (?e - 52) = of_int \<bar>m\<bar> * (2 powi q / 2 powi (?e - 52))"
    by (simp add: a)
  also have "2 powi q / 2 powi (?e - 52) = (2::real) ^ k"
    by (subst q_eq) (simp add: power_int_add)
  finally have quot: "?a / 2 powi (?e - 52) = of_int (\<bar>m\<bar> * 2 ^ k)"
    by simp
  have r: "of_int (rne (?a / 2 powi (?e - 52))) * 2 powi (?e - 52) = ?a"
  proof -
    have "of_int (rne (?a / 2 powi (?e - 52))) * 2 powi (?e - 52)
        = (?a / 2 powi (?e - 52)) * 2 powi (?e - 52)"
      by (simp only: quot rne_of_int)
    also have "\<dots> = ?a" by simp
    finally show ?thesis .
  qed
  have "round64 x = Finite (if 0 < x then ?a else - ?a)"
    using False fin by (simp only: round64_def Let_def r) simp
  then show ?thesis by (simp split: if_splits)
qed

lemma round64_of_int:
  assumes "\<bar>k\<bar> \<le> 2 ^ 53"
  shows "round64 (of_int k) = Finite (of_int k)"
proof (cases "\<bar>k\<bar> = 2 ^ 53")
  case True
  then have "k = 2 ^ 53 \<or> k = - (2 ^ 53)" by (simp add: abs_if split: if_splits)
  then show ?thesis
  proof
    assume "k = 2 ^ 53"
    then show ?thesis
      by (intro round64_exact [where m = 1 and q = 53]) simp_all
  next
    assume "k = - (2 ^ 53)"
    then show ?thesis
      by (intro round64_exact [where m = "- 1" and q = 53]) simp_all
  qed
next
  case False
  with assms have lt: "\<bar>k\<bar> < 2 ^ 53" by simp
  have "\<bar>of_int k :: real\<bar> < of_int (2 ^ 53)"
    using lt by (simp only: of_int_abs [symmetric] of_int_less_iff)
  also have "(of_int (2 ^ 53) :: real) \<le> 2 powi 1024" by simp
  finally show ?thesis
    using lt by (intro round64_exact [where m = k and q = 0]) simp_all
qed

lemma round64_not_zero:
  assumes "2 powi (- 1022) \<le> \<bar>x\<bar>"
  shows "round64 x \<noteq> Finite 0"
proof -
  let ?a = "\<bar>x\<bar>"
  let ?ulp = "(2::real) powi (exponent ?a - 52)"
  have x0: "x \<noteq> 0"
    using assms by (smt (verit) zero_less_power_int abs_zero)
  have "2 powi (exponent ?a) \<le> ?a"
    using assms by (rule exponent_lower)
  then have "2 powi (exponent ?a) / ?ulp \<le> ?a / ?ulp"
    by (intro divide_right_mono) simp_all
  also have "2 powi (exponent ?a) / ?ulp = (2::real) ^ 52"
    by (simp add: power_int_diff)
  finally have "(2::real) ^ 52 \<le> ?a / ?ulp" .
  then have "(2::int) ^ 52 \<le> \<lfloor>?a / ?ulp\<rfloor>"
    by (simp add: le_floor_iff)
  with rne_floor_le [of "?a / ?ulp"] have "0 < rne (?a / ?ulp)"
    by (smt (verit) zero_less_power)
  then have "0 < of_int (rne (?a / ?ulp)) * ?ulp"
    by (intro mult_pos_pos) simp_all
  then show ?thesis
    using x0 by (auto simp: round64_def Let_def split: if_splits)
qed


lemma exp_search_full: "2 powi (e + int k) \<le> a \<Longrightarrow> exp_search k e a = e + int k"
proof (induction k arbitrary: e)
  case 0
  show ?case by simp
next
  case (Suc k)
  have "(2::real) powi (e + 1) \<le> 2 powi (e + int (Suc k))"
    by (intro power_int_increasing) simp_all
  with Suc.prems have step: "2 powi (e + 1) \<le> a"
    by simp
  have "2 powi ((e + 1) + int k) \<le> a"
    using Suc.prems by (simp add: add.commute add.left_commute)
  from Suc.IH [OF this] step show ?case by simp
qed

lemma round64_overflow:
  assumes "2 powi 1024 \<le> x"
  shows "round64 x = PosInf"
proof -
  define u :: real where "u = 2 powi 971"
  have u: "0 < u"
    by (simp add: u_def)
  have big: "2 powi 1024 = 2 ^ 53 * u"
    by (simp add: u_def)
  have pos: "0 < x"
    using assms by (smt (verit) zero_less_power_int)
  have "(2::real) powi (- 1022 + int 2045) \<le> 2 powi 1024"
    by simp
  with assms have "2 powi (- 1022 + int 2045) \<le> x"
    by simp
  then have "exp_search 2045 (- 1022) x = - 1022 + int 2045"
    by (rule exp_search_full)
  then have e: "exponent \<bar>x\<bar> - 52 = 971"
    using pos by (simp add: exponent_def)
  from assms have "2 ^ 53 * u \<le> x"
    by (simp only: big)
  then have "2 ^ 53 \<le> x / u"
    using u by (simp add: pos_le_divide_eq)
  then have "(2::int) ^ 53 \<le> \<lfloor>x / u\<rfloor>"
    by (simp add: le_floor_iff)
  with rne_floor_le [of "x / u"] have "2 ^ 53 \<le> rne (x / u)"
    by linarith
  then have "real_of_int (2 ^ 53) \<le> real_of_int (rne (x / u))"
    by (simp only: of_int_le_iff)
  then have "real_of_int (2 ^ 53) * u \<le> real_of_int (rne (x / u)) * u"
    using u by (intro mult_right_mono) simp_all
  then have over: "2 powi 1024 \<le> real_of_int (rne (x / u)) * u"
    by (simp only: big) simp
  have "round64 x = (if 2 powi 1024 \<le> real_of_int (rne (x / u)) * u then PosInf
      else Finite (real_of_int (rne (x / u)) * u))"
    using pos by (simp only: round64_def Let_def e u_def) simp
  with over show ?thesis
    by (simp only: if_True)
qed

lemma round64_not_NaN: "round64 x \<noteq> NaN"
  by (simp add: round64_def Let_def)

lemma round64_numeral:
  "(numeral k :: int) \<le> 2 ^ 53 \<Longrightarrow> round64 (numeral k) = Finite (numeral k)"
  using round64_of_int [of "numeral k"] by simp

lemma round64_1: "round64 1 = Finite 1"
  using round64_of_int [of 1] by simp

lemma round64_07: "round64 0.7 = Finite (3152519739159347 / 4503599627370496)"
  by (rule round64_pos [where e = "- 1" and n = 6305039478318694]) (simp_all add: rne_def)

lemma round64_03: "round64 0.3 = Finite (5404319552844595 / 18014398509481984)"
  by (rule round64_pos [where e = "- 2" and n = 5404319552844595]) (simp_all add: rne_def)

lemma round64_1000: "round64 1000 = Finite 1000"
  by (simp add: round64_numeral)

subsection \<open>The error of one rounding\<close>

text \<open>
  A rounding that does not overflow moves its argument by at most the relative error
  \<open>2\<^sup>-\<^sup>5\<^sup>3\<close>, or by half the spacing \<open>2\<^sup>-\<^sup>1\<^sup>0\<^sup>7\<^sup>4\<close> of the subnormal numbers.
\<close>

lemma rne_error: "\<bar>real_of_int (rne y) - y\<bar> \<le> 1 / 2"
proof -
  have "real_of_int \<lfloor>y\<rfloor> \<le> y" "y < real_of_int \<lfloor>y\<rfloor> + 1"
    by linarith+
  then show ?thesis
    by (auto simp: rne_def Let_def)
qed

lemma round64_error:
  assumes "round64 x = Finite r"
  shows "\<bar>r - x\<bar> \<le> \<bar>x\<bar> / 2 ^ 53 + 2 powi (- 1075)"
proof (cases "x = 0")
  case True
  with assms show ?thesis by (simp add: round64_0)
next
  case False
  let ?a = "\<bar>x\<bar>"
  let ?e = "exponent ?a"
  let ?ulp = "(2::real) powi (?e - 52)"
  let ?n = "real_of_int (rne (?a / ?ulp))"
  have ulp: "0 < ?ulp" by simp
  from assms False have r: "r = (if 0 < x then ?n * ?ulp else - (?n * ?ulp))"
    by (simp add: round64_def Let_def split: if_splits)
  have "\<bar>?n * ?ulp - ?a\<bar> = \<bar>?n - ?a / ?ulp\<bar> * ?ulp"
  proof -
    have "?n * ?ulp - ?a = (?n - ?a / ?ulp) * ?ulp"
      using ulp by (simp add: field_simps)
    then show ?thesis
      using ulp by (simp add: abs_mult)
  qed
  also have "\<dots> \<le> (1 / 2) * ?ulp"
    using rne_error [of "?a / ?ulp"] ulp by (intro mult_right_mono) simp_all
  also have "(1 / 2) * ?ulp = 2 powi (?e - 53)"
    by (simp add: power_int_diff)
  finally have err: "\<bar>?n * ?ulp - ?a\<bar> \<le> 2 powi (?e - 53)" .
  have rx: "\<bar>r - x\<bar> = \<bar>?n * ?ulp - ?a\<bar>"
  proof (cases "0 < x")
    case True
    then show ?thesis by (simp add: r)
  next
    case neg: False
    then have "r - x = - (?n * ?ulp - ?a)"
      by (simp add: r)
    then show ?thesis
      by (simp only: abs_minus_cancel)
  qed
  have "2 powi (?e - 53) \<le> ?a / 2 ^ 53 + 2 powi (- 1075)"
  proof (cases "2 powi (- 1022) \<le> ?a")
    case True
    then have "2 powi ?e \<le> ?a" by (rule exponent_lower)
    then have "2 powi ?e / 2 ^ 53 \<le> ?a / 2 ^ 53"
      by (intro divide_right_mono) simp_all
    moreover have "2 powi (?e - 53) = (2::real) powi ?e / 2 ^ 53"
      by (simp add: power_int_diff)
    moreover have "(0::real) \<le> 2 powi (- 1075)" by simp
    ultimately show ?thesis by linarith
  next
    case False
    then have "?a < 2 powi (- 1021)"
      by (simp add: not_le)
    then have "?e = - 1022" by (rule exponent_subnormal)
    then have "(2::real) powi (?e - 53) = 2 powi (- 1075)" by simp
    moreover have "0 \<le> ?a / 2 ^ 53" by simp
    ultimately show ?thesis by linarith
  qed
  with err rx show ?thesis by linarith
qed

section \<open>Properties of the history of one group\<close>

subsection \<open>The loops of the aggregates\<close>

lemma fold_total_step:
  "fold total_step xs (a, b, c) =
     (fold (\<lambda>x total. fadd total (Finite x)) (map CPU xs) a,
      fold (\<lambda>x total. fadd total (Finite x)) (map Memory xs) b,
      fold (\<lambda>x total. fadd total (Finite x)) (map GPU xs) c)"
  by (induction xs arbitrary: a b c) simp_all

lemma GetAverage_expand:
  "GetAverage gh =
     (if History gh = [] then zero_ResourceUsage64
      else \<lparr>Timestamp64 = zero_Time,
             CPU64 = fdiv (running_total (map CPU (History gh)))
                       (round64 (real (length (History gh)))),
             Memory64 = fdiv (running_total (map Memory (History gh)))
                          (round64 (real (length (History gh)))),
             GPU64 = fdiv (running_total (map GPU (History gh)))
                       (round64 (real (length (History gh))))\<rparr>)"
  by (simp add: GetAverage_def fold_total_step running_total_def Let_def)

lemma fold_fadd_exact:
  "sums_exact t xs \<Longrightarrow>
   fold (\<lambda>x total. fadd total (Finite x)) xs (Finite t) = Finite (t + sum_list xs)"
  by (induction xs arbitrary: t) (simp_all add: add.assoc)

lemma mean_exact:
  assumes "xs \<noteq> []" and "sums_exact 0 xs" and "int (length xs) \<le> 2 ^ 53"
    and "round64 (sum_list xs / real (length xs)) = Finite (sum_list xs / real (length xs))"
  shows "fdiv (running_total xs) (round64 (real (length xs)))
          = Finite (sum_list xs / real (length xs))"
proof -
  have total: "running_total xs = Finite (sum_list xs)"
    using fold_fadd_exact [OF assms(2)] by (simp add: running_total_def)
  have "round64 (of_int (int (length xs))) = Finite (of_int (int (length xs)))"
    using assms(3) by (intro round64_of_int) simp
  then have count: "round64 (real (length xs)) = Finite (real (length xs))"
    by simp
  show ?thesis
    using assms(1,4) by (simp add: total count)
qed

lemma peak_step_fields:
  "Timestamp (peak_step u p) = Timestamp p"
  "CPU (peak_step u p) = max (CPU p) (CPU u)"
  "Memory (peak_step u p) = max (Memory p) (Memory u)"
  "GPU (peak_step u p) = max (GPU p) (GPU u)"
  by (simp_all add: peak_step_def Let_def max_def)

lemma fold_peak_step_fields:
  "Timestamp (fold peak_step xs p) = Timestamp p"
  "CPU (fold peak_step xs p) = Max (insert (CPU p) (CPU ` set xs))"
  "Memory (fold peak_step xs p) = Max (insert (Memory p) (Memory ` set xs))"
  "GPU (fold peak_step xs p) = Max (insert (GPU p) (GPU ` set xs))"
proof -
  show "Timestamp (fold peak_step xs p) = Timestamp p"
    by (induction xs arbitrary: p) (simp_all add: peak_step_fields)
  have gen: "f (fold peak_step xs p) = Max (insert (f p) (f ` set xs))"
    if step: "\<And>u q. f (peak_step u q) = max (f q) (f u)" for f :: "ResourceUsage \<Rightarrow> real"
  proof (induction xs arbitrary: p)
    case Nil
    show ?case by simp
  next
    case (Cons x xs)
    have "f (fold peak_step (x # xs) p) = Max (insert (max (f p) (f x)) (f ` set xs))"
      by (simp add: Cons.IH step)
    also have "\<dots> = Max (insert (f p) (f ` set (x # xs)))"
    proof (cases "set xs = {}")
      case True
      then show ?thesis by (simp add: max.commute)
    next
      case False
      then show ?thesis by (simp add: max.assoc max.left_commute max.commute)
    qed
    finally show ?case .
  qed
  show "CPU (fold peak_step xs p) = Max (insert (CPU p) (CPU ` set xs))"
    by (rule gen) (simp add: peak_step_fields)
  show "Memory (fold peak_step xs p) = Max (insert (Memory p) (Memory ` set xs))"
    by (rule gen) (simp add: peak_step_fields)
  show "GPU (fold peak_step xs p) = Max (insert (GPU p) (GPU ` set xs))"
    by (rule gen) (simp add: peak_step_fields)
qed

lemma GetPeak_expand:
  "GetPeak gh =
     (if History gh = [] then zero_ResourceUsage
      else \<lparr>Timestamp = Timestamp (hd (History gh)),
             CPU = Max (CPU ` set (History gh)),
             Memory = Max (Memory ` set (History gh)),
             GPU = Max (GPU ` set (History gh))\<rparr>)"
proof (cases "History gh = []")
  case True
  then show ?thesis by (simp add: GetPeak_def)
next
  case False
  then have peak: "GetPeak gh = fold peak_step (History gh) (hd (History gh))"
    by (cases "History gh") (simp_all add: GetPeak_def)
  have ins: "insert (f (hd (History gh))) (f ` set (History gh)) = f ` set (History gh)"
    for f :: "ResourceUsage \<Rightarrow> real"
    using False by (simp add: insert_absorb)
  show ?thesis
    unfolding peak
    by (rule ResourceUsage.equality) (simp_all add: False fold_peak_step_fields ins)
qed

subsection \<open>Appending and evicting\<close>

lemma maxSize_AddUsage: "maxSize (AddUsage now cpu memory gpu gh) = maxSize gh"
  by (simp add: AddUsage_def Let_def)

lemma History_AddUsage:
  "History (AddUsage now cpu memory gpu gh) =
     (if int (length (History gh)) + 1 > maxSize gh
      then tl (History gh @ [usage_of (now, cpu, memory, gpu)])
      else History gh @ [usage_of (now, cpu, memory, gpu)])"
  by (simp add: AddUsage_def Let_def usage_of_def)

lemma AddUsages_snoc:
  "AddUsages (calls @ [(now, cpu, memory, gpu)]) gh = AddUsage now cpu memory gpu (AddUsages calls gh)"
  by (simp add: AddUsages_def)

lemma maxSize_AddUsages: "maxSize (AddUsages calls gh) = maxSize gh"
  by (induction calls rule: rev_induct) (auto simp: AddUsages_snoc maxSize_AddUsage AddUsages_def)

lemma History_AddUsages:
  assumes "History gh = []" and "0 \<le> maxSize gh"
  shows "History (AddUsages calls gh) = drop (length calls - nat (maxSize gh)) (map usage_of calls)"
proof (induction calls rule: rev_induct)
  case Nil
  then show ?case using assms by (simp add: AddUsages_def)
next
  case (snoc call calls)
  obtain now cpu memory gpu where call: "call = (now, cpu, memory, gpu)"
    by (cases call) auto
  let ?c = "nat (maxSize gh)"
  let ?n = "length calls"
  let ?xs = "map usage_of calls"
  have len: "length (History (AddUsages calls gh)) = ?n - (?n - ?c)"
    by (simp add: snoc.IH)
  show ?case
  proof (cases "?c \<le> ?n")
    case True
    then have full: "int (length (History (AddUsages calls gh))) + 1 > maxSize gh"
      using len assms(2) by simp
    have "History (AddUsages (calls @ [call]) gh) = tl (drop (?n - ?c) ?xs @ [usage_of call])"
      using full by (simp add: call AddUsages_snoc History_AddUsage maxSize_AddUsages snoc.IH)
    also have "\<dots> = tl (drop (?n - ?c) (?xs @ [usage_of call]))"
      by simp
    also have "\<dots> = drop (Suc (?n - ?c)) (?xs @ [usage_of call])"
      by (simp only: drop_Suc tl_drop)
    also have "Suc (?n - ?c) = length (calls @ [call]) - ?c"
      using True by simp
    finally show ?thesis by simp
  next
    case False
    then have notfull: "\<not> int (length (History (AddUsages calls gh))) + 1 > maxSize gh"
      using len by simp
    have "History (AddUsages (calls @ [call]) gh) = ?xs @ [usage_of call]"
      using notfull False by (simp add: call AddUsages_snoc History_AddUsage maxSize_AddUsages snoc.IH)
    then show ?thesis using False by simp
  qed
qed

subsection \<open>The claims on the history\<close>

lemma round64_4_3: "round64 (4 / 3) = Finite (6004799503160661 / 4503599627370496)"
  by (rule round64_pos [where e = 0 and n = 6004799503160661]) (simp_all add: rne_def)

lemma running_total_overflow: "running_total [2 ^ 1023, 2 ^ 1023] = PosInf"
proof -
  have r1: "round64 (2 ^ 1023) = Finite (2 ^ 1023)"
    by (rule round64_exact [where m = 1 and q = 1023]) simp_all
  have r2: "round64 (2 ^ 1023 + 2 ^ 1023) = PosInf"
    by (rule round64_overflow) simp
  have "running_total [2 ^ 1023, 2 ^ 1023]
      = fadd (fadd (Finite 0) (Finite (2 ^ 1023))) (Finite (2 ^ 1023))"
    by (simp only: running_total_def fold.simps o_apply id_apply)
  also have "\<dots> = PosInf"
    by (simp only: fadd.simps add_0 r1 r2)
  finally show ?thesis .
qed

text \<open>
  Claim C8, as stated, fails: the average is computed in \<^verbatim>\<open>float64\<close> arithmetic, so it is
  the arithmetic mean only up to rounding, and not at all when the running total overflows.
  Over the CPU samples 1, 1, 2 it is 6004799503160661 / 4503599627370496, the
  \<^verbatim>\<open>float64\<close> nearest to 4/3; over two CPU samples of \<open>2\<^sup>1\<^sup>0\<^sup>2\<^sup>3\<close>, whose mean is \<open>2\<^sup>1\<^sup>0\<^sup>2\<^sup>3\<close>, it
  is the positive infinity.
\<close>

theorem GetAverage_rounds_counterexample:
  "CPU64 (GetAverage \<lparr>GroupName = ''g'', Namespace = ''n'',
       History = [usage_of (1, 1, 0, 0), usage_of (2, 1, 0, 0), usage_of (3, 2, 0, 0)],
       maxSize = 10\<rparr>) = Finite (6004799503160661 / 4503599627370496)
   \<and> (6004799503160661 / 4503599627370496 :: real) \<noteq> (1 + 1 + 2) / 3
   \<and> CPU64 (GetAverage \<lparr>GroupName = ''g'', Namespace = ''n'',
       History = [usage_of (1, 2 ^ 1023, 0, 0), usage_of (2, 2 ^ 1023, 0, 0)],
       maxSize = 10\<rparr>) = PosInf"
proof -
  have rounds: "CPU64 (GetAverage \<lparr>GroupName = ''g'', Namespace = ''n'',
       History = [usage_of (1, 1, 0, 0), usage_of (2, 1, 0, 0), usage_of (3, 2, 0, 0)],
       maxSize = 10\<rparr>) = Finite (6004799503160661 / 4503599627370496)"
    by (simp add: GetAverage_expand running_total_def usage_of_def round64_1 round64_numeral
        round64_4_3)
  have cpus: "map CPU [usage_of (1, 2 ^ 1023, 0, 0), usage_of (2, 2 ^ 1023, 0, 0)]
      = [2 ^ 1023, 2 ^ 1023]"
    by (simp add: usage_of_def)
  have count: "round64 (real (length [usage_of (1, 2 ^ 1023, 0, 0), usage_of (2, 2 ^ 1023, 0, 0)]))
      = Finite 2"
    by (simp add: round64_numeral)
  have "CPU64 (GetAverage \<lparr>GroupName = ''g'', Namespace = ''n'',
       History = [usage_of (1, 2 ^ 1023, 0, 0), usage_of (2, 2 ^ 1023, 0, 0)],
       maxSize = 10\<rparr>) = fdiv (running_total [2 ^ 1023, 2 ^ 1023]) (Finite 2)"
    unfolding GetAverage_expand using cpus count by simp
  then have overflows: "CPU64 (GetAverage \<lparr>GroupName = ''g'', Namespace = ''n'',
       History = [usage_of (1, 2 ^ 1023, 0, 0), usage_of (2, 2 ^ 1023, 0, 0)],
       maxSize = 10\<rparr>) = PosInf"
    by (simp only: running_total_overflow) simp
  have differs: "(6004799503160661 / 4503599627370496 :: real) \<noteq> (1 + 1 + 2) / 3"
    by simp
  from rounds differs overflows show ?thesis
    by (intro conjI)
qed

text \<open>
  Claim C8, amended. \<open>GetAverage\<close> returns, in each of the three dimensions, the
  \<^verbatim>\<open>float64\<close> quotient of the running \<^verbatim>\<open>float64\<close> total of the samples the history holds,
  added in the order held, by their number; and the all-zero value (not an error) when the
  history holds none. That quotient is the arithmetic mean whenever none of the additions
  and neither the count nor the division rounds. Over the samples (100, 2000, 1),
  (200, 4000, 2), (300, 6000, 3) it is (200, 4000, 2).
\<close>

theorem GetAverage_float64_mean:
  "GetAverage gh =
     (if History gh = []
      then \<lparr>Timestamp64 = zero_Time, CPU64 = Finite 0, Memory64 = Finite 0, GPU64 = Finite 0\<rparr>
      else \<lparr>Timestamp64 = zero_Time,
             CPU64 = fdiv (running_total (map CPU (History gh)))
                       (round64 (real (length (History gh)))),
             Memory64 = fdiv (running_total (map Memory (History gh)))
                          (round64 (real (length (History gh)))),
             GPU64 = fdiv (running_total (map GPU (History gh)))
                       (round64 (real (length (History gh))))\<rparr>)
   \<and> (xs \<noteq> [] \<and> sums_exact 0 xs \<and> int (length xs) \<le> 2 ^ 53
        \<and> round64 (sum_list xs / real (length xs)) = Finite (sum_list xs / real (length xs))
      \<longrightarrow> fdiv (running_total xs) (round64 (real (length xs)))
            = Finite (sum_list xs / real (length xs)))
   \<and> GetAverage (gh\<lparr>History := [usage_of (t1, 100, 2000, 1), usage_of (t2, 200, 4000, 2),
                                   usage_of (t3, 300, 6000, 3)]\<rparr>)
       = \<lparr>Timestamp64 = zero_Time, CPU64 = Finite 200, Memory64 = Finite 4000, GPU64 = Finite 2\<rparr>"
proof -
  have general: "GetAverage gh =
     (if History gh = []
      then \<lparr>Timestamp64 = zero_Time, CPU64 = Finite 0, Memory64 = Finite 0, GPU64 = Finite 0\<rparr>
      else \<lparr>Timestamp64 = zero_Time,
             CPU64 = fdiv (running_total (map CPU (History gh)))
                       (round64 (real (length (History gh)))),
             Memory64 = fdiv (running_total (map Memory (History gh)))
                          (round64 (real (length (History gh)))),
             GPU64 = fdiv (running_total (map GPU (History gh)))
                       (round64 (real (length (History gh))))\<rparr>)"
    by (simp only: GetAverage_expand zero_ResourceUsage64_def)
  have exact: "fdiv (running_total xs) (round64 (real (length xs)))
            = Finite (sum_list xs / real (length xs))"
    if "xs \<noteq> [] \<and> sums_exact 0 xs \<and> int (length xs) \<le> 2 ^ 53
        \<and> round64 (sum_list xs / real (length xs)) = Finite (sum_list xs / real (length xs))"
    using that by (intro mean_exact) simp_all
  have example: "GetAverage (gh\<lparr>History := [usage_of (t1, 100, 2000, 1),
        usage_of (t2, 200, 4000, 2), usage_of (t3, 300, 6000, 3)]\<rparr>)
       = \<lparr>Timestamp64 = zero_Time, CPU64 = Finite 200, Memory64 = Finite 4000, GPU64 = Finite 2\<rparr>"
    by (simp add: GetAverage_expand running_total_def usage_of_def round64_1 round64_numeral)
  from general exact example show ?thesis
    by (intro conjI impI)
qed

text \<open>
  The CPU samples 100, 200, 300: the partial sums 100, 300, 600, the count 3 and the
  quotient 200 are all \<^verbatim>\<open>float64\<close> numbers, and the average is their mean.
\<close>

theorem GetAverage_float64_mean_witness:
  "[100, 200, 300] \<noteq> ([] :: real list)
   \<and> sums_exact 0 [100, 200, 300]
   \<and> int (length [100, 200, 300 :: real]) \<le> 2 ^ 53
   \<and> round64 (sum_list [100, 200, 300] / real (length [100, 200, 300 :: real]))
       = Finite (sum_list [100, 200, 300] / real (length [100, 200, 300 :: real]))
   \<and> fdiv (running_total [100, 200, 300]) (round64 (real (length [100, 200, 300 :: real])))
       = Finite 200"
proof -
  have h: "[100, 200, 300] \<noteq> ([] :: real list)
     \<and> sums_exact 0 [100, 200, 300]
     \<and> int (length [100, 200, 300 :: real]) \<le> 2 ^ 53
     \<and> round64 (sum_list [100, 200, 300] / real (length [100, 200, 300 :: real]))
         = Finite (sum_list [100, 200, 300] / real (length [100, 200, 300 :: real]))"
    by (simp add: round64_numeral)
  from GetAverage_float64_mean [of _ "[100, 200, 300]"] h
  have "fdiv (running_total [100, 200, 300]) (round64 (real (length [100, 200, 300 :: real])))
       = Finite (sum_list [100, 200, 300] / real (length [100, 200, 300 :: real]))"
    by blast
  then have "fdiv (running_total [100, 200, 300]) (round64 (real (length [100, 200, 300 :: real])))
       = Finite 200"
    by simp
  with h show ?thesis
    by (intro conjI) blast+
qed

text \<open>
  Claim C5, as stated, fails: the maximum is taken over the samples the history holds, not
  over every sample ever observed. With capacity 1, after the samples (300, 9000, 3) and then
  (100, 10, 1) the first one has been evicted, and the peak CPU is 100 although 300 was
  observed.
\<close>

theorem GetPeak_forgets_evicted_counterexample:
  "NewGroupHistory ''g'' ''n'' 1
     = Inr \<lparr>GroupName = ''g'', Namespace = ''n'', History = [], maxSize = 1\<rparr>
   \<and> CPU (GetPeak (AddUsage 2 100 10 1 (AddUsage 1 300 9000 3
        \<lparr>GroupName = ''g'', Namespace = ''n'', History = [], maxSize = 1\<rparr>))) = 100
   \<and> CPU (GetPeak (AddUsage 2 100 10 1 (AddUsage 1 300 9000 3
        \<lparr>GroupName = ''g'', Namespace = ''n'', History = [], maxSize = 1\<rparr>))) \<noteq> max 300 100"
  by (simp add: NewGroupHistory_def AddUsage_def Let_def GetPeak_def peak_step_def)

text \<open>
  Claim C5, amended. \<open>GetPeak\<close> returns a vector whose \<open>CPU\<close>, \<open>Memory\<close> and \<open>GPU\<close> fields
  are each the maximum of that dimension over the samples the history currently holds, each
  maximum taken on its own, so that they may come from different samples; the time stamp is
  that of the oldest sample held. For the empty history it is the all-zero value. Over the
  samples (100, 9000, 1) then (300, 10, 3) the peak is (300, 9000, 3).
\<close>

theorem GetPeak_component_wise:
  "GetPeak gh =
     (if History gh = [] then \<lparr>Timestamp = zero_Time, CPU = 0, Memory = 0, GPU = 0\<rparr>
      else \<lparr>Timestamp = Timestamp (hd (History gh)),
             CPU = Max (CPU ` set (History gh)),
             Memory = Max (Memory ` set (History gh)),
             GPU = Max (GPU ` set (History gh))\<rparr>)
   \<and> GetPeak (gh\<lparr>History := [usage_of (t1, 100, 9000, 1), usage_of (t2, 300, 10, 3)]\<rparr>)
       = \<lparr>Timestamp = t1, CPU = 300, Memory = 9000, GPU = 3\<rparr>"
  by (simp add: GetPeak_expand zero_ResourceUsage_def usage_of_def)

text \<open>
  Claim C2. A history created with capacity \<open>C\<close> and then given any sequence of \<open>N\<close> calls of
  \<open>AddUsage\<close> holds \<open>min N C\<close> samples, namely the last \<open>min N C\<close> samples appended, in the
  order of the calls. So its length never exceeds the capacity, whatever the sequence; and one
  more call appends its sample and, when that would exceed the capacity, drops the sample at
  index 0.
\<close>

theorem AddUsage_bounded_fifo:
  assumes "NewGroupHistory groupName namespace C = Inr gh0"
  shows "length (History (AddUsages calls gh0)) = min (length calls) (nat C)
       \<and> History (AddUsages calls gh0)
           = drop (length calls - min (length calls) (nat C)) (map usage_of calls)
       \<and> int (length (History (AddUsages calls gh0))) \<le> C
       \<and> History (AddUsage now cpu memory gpu (AddUsages calls gh0))
           = (if int (length (History (AddUsages calls gh0))) + 1 > C
              then tl (History (AddUsages calls gh0) @ [usage_of (now, cpu, memory, gpu)])
              else History (AddUsages calls gh0) @ [usage_of (now, cpu, memory, gpu)])"
proof -
  from assms have C: "0 \<le> C" and empty: "History gh0 = []" and cap: "maxSize gh0 = C"
    by (auto simp: NewGroupHistory_def split: if_splits)
  have hist: "History (AddUsages calls gh0) = drop (length calls - nat C) (map usage_of calls)"
    using History_AddUsages [of gh0 calls] empty C cap by simp
  have idx: "length calls - min (length calls) (nat C) = length calls - nat C"
    by simp
  have len: "length (History (AddUsages calls gh0)) = min (length calls) (nat C)"
    by (simp add: hist)
  have bound: "int (length (History (AddUsages calls gh0))) \<le> C"
    using C by (simp add: len)
  have step: "History (AddUsage now cpu memory gpu (AddUsages calls gh0))
           = (if int (length (History (AddUsages calls gh0))) + 1 > C
              then tl (History (AddUsages calls gh0) @ [usage_of (now, cpu, memory, gpu)])
              else History (AddUsages calls gh0) @ [usage_of (now, cpu, memory, gpu)])"
    by (simp only: History_AddUsage maxSize_AddUsages cap)
  from len hist bound step show ?thesis
    by (simp only: idx simp_thms)
qed

text \<open>
  The scenario of the package's own test: capacity 3 and four calls; the first sample is
  evicted.
\<close>

theorem AddUsage_bounded_fifo_witness:
  "NewGroupHistory ''test'' ''default'' 3
     = Inr \<lparr>GroupName = ''test'', Namespace = ''default'', History = [], maxSize = 3\<rparr>
   \<and> History (AddUsages [(1, 100, 2048, 1), (2, 150, 3072, 1), (3, 200, 4096, 2), (4, 250, 5120, 2)]
        \<lparr>GroupName = ''test'', Namespace = ''default'', History = [], maxSize = 3\<rparr>)
       = [usage_of (2, 150, 3072, 1), usage_of (3, 200, 4096, 2), usage_of (4, 250, 5120, 2)]"
proof -
  have new: "NewGroupHistory ''test'' ''default'' 3
     = Inr \<lparr>GroupName = ''test'', Namespace = ''default'', History = [], maxSize = 3\<rparr>"
    by (simp add: NewGroupHistory_def)
  show ?thesis
    using new AddUsage_bounded_fifo [OF new,
        of "[(1, 100, 2048, 1), (2, 150, 3072, 1), (3, 200, 4096, 2), (4, 250, 5120, 2)]"]
    by simp
qed

section \<open>Properties of the estimator\<close>

subsection \<open>The result of an estimate\<close>

lemma EstimateResources_absent:
  "DAList.lookup (histories e) (key_of namespace groupName) = None \<Longrightarrow>
   EstimateResources pf namespace groupName e =
     (Inl (NotFoundError (''no history found for '' @ key_of namespace groupName)), e)"
  by (simp add: EstimateResources_def)

lemma EstimateResources_present:
  "DAList.lookup (histories e) (key_of namespace groupName) = Some h \<Longrightarrow>
   EstimateResources pf namespace groupName e =
     (Inr (if fgt (weighted (fuse pf) (GPU64 (GetAverage h)) (Finite (GPU (GetPeak h)))) (Finite 0)
           then [ResourceCPU \<mapsto> NewMilliQuantity
                    (int64 (oor pf)
                       (fmul (weighted (fuse pf) (CPU64 (GetAverage h)) (Finite (CPU (GetPeak h))))
                          (round64 1000))) DecimalSI,
                 ResourceMemory \<mapsto> NewQuantity
                    (int64 (oor pf)
                       (weighted (fuse pf) (Memory64 (GetAverage h)) (Finite (Memory (GetPeak h)))))
                    BinarySI,
                 ResourceGPU \<mapsto> NewQuantity
                    (int64 (oor pf)
                       (weighted (fuse pf) (GPU64 (GetAverage h)) (Finite (GPU (GetPeak h)))))
                    DecimalSI]
           else [ResourceCPU \<mapsto> NewMilliQuantity
                    (int64 (oor pf)
                       (fmul (weighted (fuse pf) (CPU64 (GetAverage h)) (Finite (CPU (GetPeak h))))
                          (round64 1000))) DecimalSI,
                 ResourceMemory \<mapsto> NewQuantity
                    (int64 (oor pf)
                       (weighted (fuse pf) (Memory64 (GetAverage h)) (Finite (Memory (GetPeak h)))))
                    BinarySI]), e)"
  by (simp add: EstimateResources_def Let_def)

lemma resource_names_distinct:
  "ResourceCPU \<noteq> ResourceMemory" "ResourceCPU \<noteq> ResourceGPU" "ResourceMemory \<noteq> ResourceGPU"
  "ResourceMemory \<noteq> ResourceCPU" "ResourceGPU \<noteq> ResourceCPU" "ResourceGPU \<noteq> ResourceMemory"
  by (simp_all add: ResourceCPU_def ResourceMemory_def ResourceGPU_def)

lemma sint_int64:
  "- (2 ^ 63) \<le> trunc x \<Longrightarrow> trunc x < 2 ^ 63 \<Longrightarrow> sint (int64 f (Finite x)) = trunc x"
  by (simp add: int64_def sint_sbintrunc' signed_take_bit_int_eq_self)

lemma int64_zero: "int64 f (Finite 0) = 0"
  by (simp add: int64_def trunc_def)

lemma weighted_zero: "weighted fu (Finite 0) (Finite 0) = Finite 0"
  by (cases fu) (simp_all add: weighted_def round64_07 round64_03 round64_0)

lemma fields_Quantity:
  "scale (NewMilliQuantity v f) = - 3" "amount (NewMilliQuantity v f) = v"
  "scale (NewQuantity v f) = 0" "amount (NewQuantity v f) = v"
  by (simp_all add: NewMilliQuantity_def NewQuantity_def)

subsection \<open>Recording\<close>


lemma RecordUsage_Inr:
  "RecordUsage now namespace groupName cpu memory gpu e = Inr e' \<Longrightarrow>
   \<exists>h. e' = e\<lparr>histories := DAList.update (key_of namespace groupName) h (histories e)\<rparr>"
  by (auto simp: RecordUsage_def NewGroupHistory_def Let_def split: option.splits if_splits)


subsection \<open>The scenarios\<close>

lemmas scenario_simps =
  run.simps RecordUsage_def NewEstimator_def NewGroupHistory_def AddUsage_def key_of_def Let_def
  DAList.lookup_update usage_of_def

lemma run_test_estimator:
  "run [Record_Usage 1 ''default'' ''test'' 1000 2000 1,
        Record_Usage 2 ''default'' ''test'' 1000 2000 1,
        Record_Usage 3 ''default'' ''test'' 2000 4000 2] (NewEstimator 10) = Inr test_estimator"
  by (simp add: scenario_simps test_estimator_def test_history_def)

lemma run_batch_estimator:
  "run [Record_Usage 1 ''default'' ''batch'' 100 2048 0,
        Record_Usage 2 ''default'' ''batch'' 150 3072 0] (NewEstimator 10) = Inr batch_estimator"
  by (simp add: scenario_simps batch_estimator_def batch_history_def)

lemma run_empty_estimator:
  "run [Record_Usage now ''default'' ''group1'' cpu memory gpu] (NewEstimator 0) = Inr empty_estimator"
  by (simp add: scenario_simps empty_estimator_def empty_history_def)

lemma run_single_estimator:
  "run [Record_Usage 1 ''default'' ''test'' cpu memory gpu] (NewEstimator 10)
     = Inr (single_estimator cpu memory gpu)"
  by (simp add: scenario_simps single_estimator_def single_history_def)

lemma lookup_test_estimator:
  "DAList.lookup (histories test_estimator) (key_of ''default'' ''test'') = Some test_history"
  by (simp add: test_estimator_def key_of_def)

lemma lookup_batch_estimator:
  "DAList.lookup (histories batch_estimator) (key_of ''default'' ''batch'') = Some batch_history"
  by (simp add: batch_estimator_def key_of_def)

lemma lookup_empty_estimator:
  "DAList.lookup (histories empty_estimator) (key_of ''default'' ''group1'') = Some empty_history"
  by (simp add: empty_estimator_def key_of_def)

lemma lookup_single_estimator:
  "DAList.lookup (histories (single_estimator cpu memory gpu)) (key_of ''default'' ''test'')
     = Some (single_history cpu memory gpu)"
  by (simp add: single_estimator_def key_of_def)

text \<open>One sample: the average and the peak are the sample, when it is a \<^verbatim>\<open>float64\<close>.\<close>

lemma single_history_aggregates:
  assumes "round64 cpu = Finite cpu" "round64 memory = Finite memory" "round64 gpu = Finite gpu"
  shows "CPU64 (GetAverage (single_history cpu memory gpu)) = Finite cpu"
    and "Memory64 (GetAverage (single_history cpu memory gpu)) = Finite memory"
    and "GPU64 (GetAverage (single_history cpu memory gpu)) = Finite gpu"
    and "CPU (GetPeak (single_history cpu memory gpu)) = cpu"
    and "Memory (GetPeak (single_history cpu memory gpu)) = memory"
    and "GPU (GetPeak (single_history cpu memory gpu)) = gpu"
  using assms
  by (simp_all add: GetAverage_expand GetPeak_expand single_history_def usage_of_def
      running_total_def round64_1)

subsection \<open>Roundings of the scenarios\<close>

lemma round64_three_1: "round64 (9457559217478041 / 4503599627370496) = Finite (1182194902184755 / 562949953421312)"
  by (rule round64_pos [where e = 1 and n = 4728779608739020]) (simp_all add: rne_def)

lemma round64_three_2: "round64 (16212958658533785 / 18014398509481984) = Finite (2026619832316723 / 2251799813685248)"
  by (rule round64_pos [where e = "- 1" and n = 8106479329266892]) (simp_all add: rne_def)

lemma round64_three_3: "round64 (6755399441055743 / 2251799813685248) = Finite (6755399441055743 / 2251799813685248)"
  by (rule round64_pos [where e = 1 and n = 6755399441055743]) (simp_all add: rne_def)

lemma round64_three_4: "round64 (844424930131967875 / 281474976710656) = Finite (6597069766655999 / 2199023255552)"
  by (rule round64_pos [where e = 11 and n = 6597069766655999]) (simp_all add: rne_def)

lemma round64_three_eighths_5: "round64 (9457559217478041 / 36028797018963968) = Finite (1182194902184755 / 4503599627370496)"
  by (rule round64_pos [where e = "- 2" and n = 4728779608739020]) (simp_all add: rne_def)

lemma round64_three_eighths_6: "round64 (16212958658533785 / 144115188075855872) = Finite (2026619832316723 / 18014398509481984)"
  by (rule round64_pos [where e = "- 4" and n = 8106479329266892]) (simp_all add: rne_def)

lemma round64_three_eighths_7: "round64 (6755399441055743 / 18014398509481984) = Finite (6755399441055743 / 18014398509481984)"
  by (rule round64_pos [where e = "- 2" and n = 6755399441055743]) (simp_all add: rne_def)

lemma round64_three_eighths_8: "round64 (844424930131967875 / 2251799813685248) = Finite (6597069766655999 / 17592186044416)"
  by (rule round64_pos [where e = 8 and n = 6597069766655999]) (simp_all add: rne_def)

lemma round64_mixed_9: "round64 (- (9457559217478041 / 4503599627370496)) = Finite (- (1182194902184755 / 562949953421312))"
  by (rule round64_neg [where e = 1 and n = 4728779608739020]) (simp_all add: rne_def)

lemma round64_mixed_10: "round64 (37830236869912165 / 18014398509481984) = Finite (4728779608739021 / 2251799813685248)"
  by (rule round64_pos [where e = 1 and n = 4728779608739021]) (simp_all add: rne_def)

lemma round64_mixed_11: "round64 (1 / 2251799813685248) = Finite (1 / 2251799813685248)"
  by (rule round64_pos [where e = "- 51" and n = 4503599627370496]) (simp_all add: rne_def)

lemma round64_milli_12: "round64 (18014398509481983 / 18446744073709551616) = Finite (1 / 1024)"
  by (rule round64_pos [where e = "- 11" and n = 9007199254740992]) (simp_all add: rne_def)

lemma weighted_Separate_3:
  "weighted Separate (Finite 3) (Finite 3) = Finite (6755399441055743 / 2251799813685248)"
  by (simp add: weighted_def round64_07 round64_03 round64_three_1 round64_three_2
      round64_three_3)

lemma weighted_Separate_three_eighths:
  "weighted Separate (Finite (3 / 8)) (Finite (3 / 8))
     = Finite (6755399441055743 / 18014398509481984)"
  by (simp add: weighted_def round64_07 round64_03 round64_three_eighths_5
      round64_three_eighths_6 round64_three_eighths_7)

lemma weighted_milli: "weighted fu (Finite (1 / 1024)) (Finite (1 / 1024)) = Finite (1 / 1024)"
proof -
  have p7: "round64 (3152519739159347 / 4611686018427387904)
      = Finite (3152519739159347 / 4611686018427387904)"
    by (rule round64_exact [where m = 3152519739159347 and q = "- 62"]) simp_all
  have p3: "round64 (5404319552844595 / 18446744073709551616)
      = Finite (5404319552844595 / 18446744073709551616)"
    by (rule round64_exact [where m = 5404319552844595 and q = "- 64"]) simp_all
  show ?thesis
    by (cases fu) (simp_all add: weighted_def round64_07 round64_03 p7 p3 round64_milli_12)
qed

lemma round64_neg_numeral:
  "(numeral k :: int) \<le> 2 ^ 53 \<Longrightarrow> round64 (- numeral k) = Finite (- numeral k)"
  using round64_of_int [of "- numeral k"] by simp

lemma lookup_mixed_estimator:
  "DAList.lookup (histories mixed_estimator) (key_of ''default'' ''test'') = Some mixed_history"
  by (simp add: mixed_estimator_def key_of_def)

lemma mixed_history_aggregates:
  "GetAverage mixed_history
     = \<lparr>Timestamp64 = zero_Time, CPU64 = Finite 0, Memory64 = Finite 0, GPU64 = Finite (- 3)\<rparr>"
  "GetPeak mixed_history = \<lparr>Timestamp = 1, CPU = 0, Memory = 0, GPU = 7\<rparr>"
  by (simp_all add: GetAverage_expand GetPeak_expand mixed_history_def usage_of_def
      running_total_def round64_0 round64_numeral round64_neg_numeral)

lemma weighted_Separate_mixed:
  "weighted Separate (Finite (- 3)) (Finite 7) = Finite (1 / 2251799813685248)"
  by (simp add: weighted_def round64_07 round64_03 round64_mixed_9 round64_mixed_10
      round64_mixed_11)

subsection \<open>The accuracy of the weighted estimate\<close>

text \<open>
  Whichever operations are fused, a finite estimate differs from the exact
  \<open>0.7 \<times> average + 0.3 \<times> peak\<close> by at most \<open>2\<^sup>-\<^sup>5\<^sup>1\<close> times \<open>0.7 \<times> \<bar>average\<bar> + 0.3 \<times> \<bar>peak\<bar>\<close>,
  plus \<open>2\<^sup>-\<^sup>1\<^sup>0\<^sup>7\<^sup>3\<close> for the roundings to subnormal numbers.
\<close>

lemma rounded_product_error:
  fixes r x t A u eta :: real
  assumes "\<bar>r - x\<bar> \<le> \<bar>x\<bar> * u + eta" and "\<bar>x\<bar> \<le> A" and "\<bar>x - t\<bar> \<le> A * u" and "0 \<le> u"
  shows "\<bar>r - t\<bar> \<le> A * (2 * u) + eta"
proof -
  have "\<bar>x\<bar> * u \<le> A * u"
    using assms(2,4) by (rule mult_right_mono)
  moreover have "A * (2 * u) = A * u + A * u"
    by simp
  ultimately show ?thesis
    using assms(1,3) by linarith
qed

lemma exact_product_error:
  fixes x t A u eta :: real
  assumes "\<bar>x - t\<bar> \<le> A * u" and "0 \<le> A" and "0 \<le> u" and "0 \<le> eta"
  shows "\<bar>x - t\<bar> \<le> A * (2 * u) + eta"
proof -
  have "0 \<le> A * u"
    using assms(2,3) by simp
  moreover have "A * (2 * u) = A * u + A * u"
    by simp
  ultimately show ?thesis
    using assms(1,4) by linarith
qed

lemma sum_error:
  fixes r1 r2 t1 t2 A1 A2 u eta :: real
  assumes "\<bar>r1 - t1\<bar> \<le> A1 * (2 * u) + eta" and "\<bar>r2 - t2\<bar> \<le> A2 * (2 * u) + eta"
  shows "\<bar>(r1 + r2) - (t1 + t2)\<bar> \<le> (A1 + A2) * (2 * u) + 2 * eta"
proof -
  have "(A1 + A2) * (2 * u) = A1 * (2 * u) + A2 * (2 * u)"
    by (simp add: algebra_simps)
  with assms show ?thesis
    by linarith
qed

lemma weighted_accuracy:
  assumes "weighted fu (Finite a) (Finite p) = Finite v"
  shows "\<bar>v - (0.7 * a + 0.3 * p)\<bar> \<le> (0.7 * \<bar>a\<bar> + 0.3 * \<bar>p\<bar>) / 2 ^ 51 + 2 powi (- 1073)"
proof -
  define c7 :: real where "c7 = 3152519739159347 / 4503599627370496"
  define c3 :: real where "c3 = 5404319552844595 / 18014398509481984"
  define u :: real where "u = 1 / 2 ^ 53"
  define eta :: real where "eta = 2 powi (- 1075)"
  have r7: "round64 0.7 = Finite c7" and r3: "round64 0.3 = Finite c3"
    by (simp_all add: c7_def c3_def round64_07 round64_03)
  have u: "0 < u" "u \<le> 1 / 4" and eta: "0 < eta"
    by (simp_all add: u_def eta_def)
  have a7: "\<bar>a * c7\<bar> \<le> 0.7 * \<bar>a\<bar>" "\<bar>a * c7 - 0.7 * a\<bar> \<le> 0.7 * \<bar>a\<bar> * u"
  proof -
    have "\<bar>a * c7\<bar> = \<bar>a\<bar> * c7"
      by (simp add: abs_mult c7_def)
    moreover have "\<bar>a\<bar> * c7 \<le> \<bar>a\<bar> * 0.7"
      by (intro mult_left_mono) (simp_all add: c7_def)
    ultimately show "\<bar>a * c7\<bar> \<le> 0.7 * \<bar>a\<bar>" by simp
    have "a * c7 - 0.7 * a = a * (c7 - 0.7)"
      by (simp add: algebra_simps)
    then have "\<bar>a * c7 - 0.7 * a\<bar> = \<bar>a\<bar> * \<bar>c7 - 0.7\<bar>"
      by (simp add: abs_mult)
    moreover have "\<bar>a\<bar> * \<bar>c7 - 0.7\<bar> \<le> \<bar>a\<bar> * (0.7 * u)"
      by (intro mult_left_mono) (simp_all add: c7_def u_def)
    ultimately show "\<bar>a * c7 - 0.7 * a\<bar> \<le> 0.7 * \<bar>a\<bar> * u" by simp
  qed
  have p3: "\<bar>p * c3\<bar> \<le> 0.3 * \<bar>p\<bar>" "\<bar>p * c3 - 0.3 * p\<bar> \<le> 0.3 * \<bar>p\<bar> * u"
  proof -
    have "\<bar>p * c3\<bar> = \<bar>p\<bar> * c3"
      by (simp add: abs_mult c3_def)
    moreover have "\<bar>p\<bar> * c3 \<le> \<bar>p\<bar> * 0.3"
      by (intro mult_left_mono) (simp_all add: c3_def)
    ultimately show "\<bar>p * c3\<bar> \<le> 0.3 * \<bar>p\<bar>" by simp
    have "p * c3 - 0.3 * p = p * (c3 - 0.3)"
      by (simp add: algebra_simps)
    then have "\<bar>p * c3 - 0.3 * p\<bar> = \<bar>p\<bar> * \<bar>c3 - 0.3\<bar>"
      by (simp add: abs_mult)
    moreover have "\<bar>p\<bar> * \<bar>c3 - 0.3\<bar> \<le> \<bar>p\<bar> * (0.3 * u)"
      by (intro mult_left_mono) (simp_all add: c3_def u_def)
    ultimately show "\<bar>p * c3 - 0.3 * p\<bar> \<le> 0.3 * \<bar>p\<bar> * u" by simp
  qed
  have err: "\<bar>r - x\<bar> \<le> \<bar>x\<bar> * u + eta" if "round64 x = Finite r" for x r
    using round64_error [OF that] by (simp add: u_def eta_def)
  have final: "\<bar>v - (0.7 * a + 0.3 * p)\<bar> \<le> (0.7 * \<bar>a\<bar> + 0.3 * \<bar>p\<bar>) * (4 * u) + 4 * eta"
    if s: "\<bar>v - s\<bar> \<le> \<bar>s\<bar> * u + eta"
      and d: "\<bar>s - (0.7 * a + 0.3 * p)\<bar> \<le> (0.7 * \<bar>a\<bar> + 0.3 * \<bar>p\<bar>) * (2 * u) + 2 * eta" for s
  proof -
    define B where "B = 0.7 * \<bar>a\<bar> + 0.3 * \<bar>p\<bar>"
    define t where "t = 0.7 * a + 0.3 * p"
    have B: "0 \<le> B" by (simp add: B_def)
    have "\<bar>t\<bar> \<le> B"
      unfolding B_def t_def by linarith
    moreover from d have d': "\<bar>s - t\<bar> \<le> B * (2 * u) + 2 * eta"
      by (simp only: B_def t_def)
    ultimately have "\<bar>s\<bar> \<le> B + (B * (2 * u) + 2 * eta)"
      by linarith
    then have "\<bar>s\<bar> * u \<le> (B + (B * (2 * u) + 2 * eta)) * u"
      using u by (intro mult_right_mono) simp_all
    also have "\<dots> = B * (u + 2 * (u * u)) + 2 * (eta * u)"
      by (simp add: algebra_simps)
    also have "\<dots> \<le> B * (2 * u) + eta"
    proof (intro add_mono mult_left_mono B)
      have "u * u \<le> (1 / 4) * u"
        using u by (intro mult_right_mono) simp_all
      then show "u + 2 * (u * u) \<le> 2 * u" using u by simp
      have "eta * u \<le> eta * (1 / 4)"
        using u eta by (intro mult_left_mono) simp_all
      then show "2 * (eta * u) \<le> eta" using eta by simp
    qed
    finally have "\<bar>s\<bar> * u \<le> B * (2 * u) + eta" .
    with s d' have "\<bar>v - t\<bar> \<le> (B * (2 * u) + eta) + eta + (B * (2 * u) + 2 * eta)"
      by linarith
    also have "\<dots> = B * (4 * u) + 4 * eta"
      by (simp add: algebra_simps)
    finally show ?thesis
      by (simp only: B_def t_def)
  qed
  have prod7: "\<bar>r - 0.7 * a\<bar> \<le> 0.7 * \<bar>a\<bar> * (2 * u) + eta" if "round64 (a * c7) = Finite r" for r
    using err [OF that] a7 u(1) by (intro rounded_product_error [where x = "a * c7"]) simp_all
  have prod3: "\<bar>r - 0.3 * p\<bar> \<le> 0.3 * \<bar>p\<bar> * (2 * u) + eta" if "round64 (p * c3) = Finite r" for r
    using err [OF that] p3 u(1) by (intro rounded_product_error [where x = "p * c3"]) simp_all
  have exact7: "\<bar>a * c7 - 0.7 * a\<bar> \<le> 0.7 * \<bar>a\<bar> * (2 * u) + eta"
    using a7(2) u(1) eta by (intro exact_product_error) simp_all
  have exact3: "\<bar>p * c3 - 0.3 * p\<bar> \<le> 0.3 * \<bar>p\<bar> * (2 * u) + eta"
    using p3(2) u(1) eta by (intro exact_product_error) simp_all
  have bound: "\<bar>v - (0.7 * a + 0.3 * p)\<bar> \<le> (0.7 * \<bar>a\<bar> + 0.3 * \<bar>p\<bar>) * (4 * u) + 4 * eta"
  proof (cases fu)
    case Separate
    with assms have w: "fadd (fmul (Finite a) (Finite c7)) (fmul (Finite p) (Finite c3)) = Finite v"
      by (simp add: weighted_def r7 r3)
    obtain r1 where r1: "round64 (a * c7) = Finite r1"
      using w round64_not_NaN [of "a * c7"]
      by (cases "round64 (a * c7)"; cases "round64 (p * c3)") simp_all
    obtain r2 where r2: "round64 (p * c3) = Finite r2"
      using w round64_not_NaN [of "p * c3"]
      by (cases "round64 (a * c7)"; cases "round64 (p * c3)") simp_all
    from w have v: "round64 (r1 + r2) = Finite v"
      by (simp add: r1 r2)
    have "\<bar>(r1 + r2) - (0.7 * a + 0.3 * p)\<bar> \<le> (0.7 * \<bar>a\<bar> + 0.3 * \<bar>p\<bar>) * (2 * u) + 2 * eta"
      using prod7 [OF r1] prod3 [OF r2] by (rule sum_error)
    with err [OF v] show ?thesis
      by (rule final)
  next
    case FuseAverage
    with assms have w: "fma (Finite a) (Finite c7) (fmul (Finite p) (Finite c3)) = Finite v"
      by (simp add: weighted_def r7 r3)
    obtain r2 where r2: "round64 (p * c3) = Finite r2"
      using w round64_not_NaN [of "p * c3"]
      by (cases "round64 (p * c3)") simp_all
    from w have v: "round64 (a * c7 + r2) = Finite v"
      by (simp add: r2)
    have "\<bar>(a * c7 + r2) - (0.7 * a + 0.3 * p)\<bar> \<le> (0.7 * \<bar>a\<bar> + 0.3 * \<bar>p\<bar>) * (2 * u) + 2 * eta"
      using exact7 prod3 [OF r2] by (rule sum_error)
    with err [OF v] show ?thesis
      by (rule final)
  next
    case FusePeak
    with assms have w: "fma (Finite p) (Finite c3) (fmul (Finite a) (Finite c7)) = Finite v"
      by (simp add: weighted_def r7 r3)
    obtain r1 where r1: "round64 (a * c7) = Finite r1"
      using w round64_not_NaN [of "a * c7"]
      by (cases "round64 (a * c7)") simp_all
    from w have v: "round64 (r1 + p * c3) = Finite v"
      by (simp add: r1 add.commute)
    have "\<bar>(r1 + p * c3) - (0.7 * a + 0.3 * p)\<bar> \<le> (0.7 * \<bar>a\<bar> + 0.3 * \<bar>p\<bar>) * (2 * u) + 2 * eta"
      using prod7 [OF r1] exact3 by (rule sum_error)
    with err [OF v] show ?thesis
      by (rule final)
  qed
  have e1: "(0.7 * \<bar>a\<bar> + 0.3 * \<bar>p\<bar>) * (4 * u) = (0.7 * \<bar>a\<bar> + 0.3 * \<bar>p\<bar>) / 2 ^ 51"
    by (simp add: u_def)
  have e2: "4 * eta = 2 powi (- 1073)"
  proof -
    have "(2::real) powi (- 1073) = 2 powi (- 1075 + 2)" by simp
    also have "\<dots> = 2 powi (- 1075) * 2 powi 2"
      by (subst power_int_add) simp_all
    finally show ?thesis by (simp add: eta_def)
  qed
  from bound show ?thesis
    by (simp only: e1 e2)
qed

subsection \<open>The claims on the estimate\<close>

text \<open>
  Claim C1, as stated, fails: the estimate is computed in \<^verbatim>\<open>float64\<close> arithmetic and is
  \<open>0.7 \<times> average + 0.3 \<times> peak\<close> only up to rounding. After one sample (3, 3, 3) the average
  and the peak are 3 in every dimension and \<open>0.7 \<times> 3 + 0.3 \<times> 3 = 3\<close>, but where no operation
  is fused the estimate is 6755399441055743 / 2251799813685248, just below 3, and the
  result is 2999 milli-cores, 2 bytes and 2 accelerators.
\<close>

theorem EstimateResources_exact_formula_counterexample:
  "estimate_after amd64 [Record_Usage 1 ''default'' ''test'' 3 3 3] ''default'' ''test''
       (NewEstimator 10)
     = Inr [ResourceCPU \<mapsto> NewMilliQuantity 2999 DecimalSI,
            ResourceMemory \<mapsto> NewQuantity 2 BinarySI,
            ResourceGPU \<mapsto> NewQuantity 2 DecimalSI]
   \<and> CPU64 (GetAverage (single_history 3 3 3)) = Finite 3
   \<and> CPU (GetPeak (single_history 3 3 3)) = 3
   \<and> weighted Separate (Finite 3) (Finite 3) = Finite (6755399441055743 / 2251799813685248)
   \<and> (6755399441055743 / 2251799813685248 :: real) \<noteq> 0.7 * 3 + 0.3 * 3"
proof -
  have r3: "round64 3 = Finite 3"
    by (simp add: round64_numeral)
  have "fst (EstimateResources amd64 ''default'' ''test'' (single_estimator 3 3 3))
     = Inr [ResourceCPU \<mapsto> NewMilliQuantity 2999 DecimalSI,
            ResourceMemory \<mapsto> NewQuantity 2 BinarySI,
            ResourceGPU \<mapsto> NewQuantity 2 DecimalSI]"
    by (simp add: EstimateResources_present [OF lookup_single_estimator [of 3 3 3]]
        single_history_aggregates [OF r3 r3 r3] amd64_def weighted_Separate_3 round64_1000
        round64_three_4 int64_def trunc_def)
  then have "estimate_after amd64 [Record_Usage 1 ''default'' ''test'' 3 3 3] ''default'' ''test''
       (NewEstimator 10)
     = Inr [ResourceCPU \<mapsto> NewMilliQuantity 2999 DecimalSI,
            ResourceMemory \<mapsto> NewQuantity 2 BinarySI,
            ResourceGPU \<mapsto> NewQuantity 2 DecimalSI]"
    by (simp only: estimate_after_def run_single_estimator sum.case)
  moreover have "(6755399441055743 / 2251799813685248 :: real) \<noteq> 0.7 * 3 + 0.3 * 3"
    by simp
  ultimately show ?thesis
    using single_history_aggregates(1,4) [OF r3 r3 r3] weighted_Separate_3 by (intro conjI)
qed

text \<open>
  Claim C1, amended. For every key the registry holds, whatever the number of samples of
  its history, \<open>EstimateResources\<close> builds its result from the three estimates
  \<open>0.7 \<times> average + 0.3 \<times> peak\<close> evaluated in \<^verbatim>\<open>float64\<close> arithmetic, one per dimension, where
  the average and the peak are what \<open>GetAverage\<close> and \<open>GetPeak\<close> return for that history at
  the time of the call: 0.7 and 0.3 are the nearest \<^verbatim>\<open>float64\<close> numbers, and the two products
  and the sum are each rounded to the nearest \<^verbatim>\<open>float64\<close>, unless the implementation fuses
  one product with the sum and rounds them once. An estimate that is finite, for a finite
  average \<open>a\<close> and a peak \<open>p\<close>, differs from the exact \<open>0.7 \<times> a + 0.3 \<times> p\<close> by at most
  \<open>(0.7 \<times> \<bar>a\<bar> + 0.3 \<times> \<bar>p\<bar>) / 2\<^sup>5\<^sup>1 + 2\<^sup>-\<^sup>1\<^sup>0\<^sup>7\<^sup>3\<close>. The CPU entry holds the CPU estimate times
  1000, the memory entry the memory estimate, and the accelerator entry, present when the
  estimate is positive, the accelerator estimate.
\<close>

theorem EstimateResources_weighted:
  assumes "DAList.lookup (histories e) (key_of namespace groupName) = Some h"
  shows "(\<exists>res. fst (EstimateResources pf namespace groupName e) = Inr res
     \<and> res ResourceCPU = Some (NewMilliQuantity
           (int64 (oor pf)
              (fmul (weighted (fuse pf) (CPU64 (GetAverage h)) (Finite (CPU (GetPeak h))))
                 (round64 1000))) DecimalSI)
     \<and> res ResourceMemory = Some (NewQuantity
           (int64 (oor pf)
              (weighted (fuse pf) (Memory64 (GetAverage h)) (Finite (Memory (GetPeak h)))))
           BinarySI)
     \<and> res ResourceGPU =
          (if fgt (weighted (fuse pf) (GPU64 (GetAverage h)) (Finite (GPU (GetPeak h)))) (Finite 0)
           then Some (NewQuantity
             (int64 (oor pf)
                (weighted (fuse pf) (GPU64 (GetAverage h)) (Finite (GPU (GetPeak h)))))
             DecimalSI)
           else None))
   \<and> weighted Separate avg peak = fadd (fmul avg (round64 0.7)) (fmul peak (round64 0.3))
   \<and> weighted FuseAverage avg peak = fma avg (round64 0.7) (fmul peak (round64 0.3))
   \<and> weighted FusePeak avg peak = fma peak (round64 0.3) (fmul avg (round64 0.7))
   \<and> round64 0.7 = Finite (3152519739159347 / 4503599627370496)
   \<and> round64 0.3 = Finite (5404319552844595 / 18014398509481984)
   \<and> round64 1000 = Finite 1000
   \<and> (weighted fu (Finite a) (Finite p) = Finite v
        \<longrightarrow> \<bar>v - (0.7 * a + 0.3 * p)\<bar>
              \<le> (0.7 * \<bar>a\<bar> + 0.3 * \<bar>p\<bar>) / 2 ^ 51 + 2 powi (- 1073))"
proof -
  have result: "\<exists>res. fst (EstimateResources pf namespace groupName e) = Inr res
     \<and> res ResourceCPU = Some (NewMilliQuantity
           (int64 (oor pf)
              (fmul (weighted (fuse pf) (CPU64 (GetAverage h)) (Finite (CPU (GetPeak h))))
                 (round64 1000))) DecimalSI)
     \<and> res ResourceMemory = Some (NewQuantity
           (int64 (oor pf)
              (weighted (fuse pf) (Memory64 (GetAverage h)) (Finite (Memory (GetPeak h)))))
           BinarySI)
     \<and> res ResourceGPU =
          (if fgt (weighted (fuse pf) (GPU64 (GetAverage h)) (Finite (GPU (GetPeak h)))) (Finite 0)
           then Some (NewQuantity
             (int64 (oor pf)
                (weighted (fuse pf) (GPU64 (GetAverage h)) (Finite (GPU (GetPeak h)))))
             DecimalSI)
           else None)"
    using assms by (simp add: EstimateResources_present resource_names_distinct)
  have formulas: "weighted Separate avg peak = fadd (fmul avg (round64 0.7)) (fmul peak (round64 0.3))"
    "weighted FuseAverage avg peak = fma avg (round64 0.7) (fmul peak (round64 0.3))"
    "weighted FusePeak avg peak = fma peak (round64 0.3) (fmul avg (round64 0.7))"
    by (simp_all add: weighted_def)
  have accuracy: "\<bar>v - (0.7 * a + 0.3 * p)\<bar>
      \<le> (0.7 * \<bar>a\<bar> + 0.3 * \<bar>p\<bar>) / 2 ^ 51 + 2 powi (- 1073)"
    if "weighted fu (Finite a) (Finite p) = Finite v"
    using that by (rule weighted_accuracy)
  from result formulas round64_07 round64_03 round64_1000 accuracy show ?thesis
    by (intro conjI impI)
qed

text \<open>
  One sample (3, 3, 3) where no operation is fused: the estimates are just below 3, within
  the bound, and the entries are 2999 milli-cores, 2 bytes and 2 accelerators.
\<close>

theorem EstimateResources_weighted_witness:
  "DAList.lookup (histories (single_estimator 3 3 3)) (key_of ''default'' ''test'')
     = Some (single_history 3 3 3)
   \<and> (\<exists>res. fst (EstimateResources amd64 ''default'' ''test'' (single_estimator 3 3 3)) = Inr res
        \<and> res ResourceCPU = Some (NewMilliQuantity 2999 DecimalSI)
        \<and> res ResourceMemory = Some (NewQuantity 2 BinarySI)
        \<and> res ResourceGPU = Some (NewQuantity 2 DecimalSI))
   \<and> weighted Separate (Finite 3) (Finite 3) = Finite (6755399441055743 / 2251799813685248)
   \<and> \<bar>6755399441055743 / 2251799813685248 - (0.7 * 3 + 0.3 * 3)\<bar>
       \<le> (0.7 * \<bar>3\<bar> + 0.3 * \<bar>3\<bar>) / 2 ^ 51 + (2 :: real) powi (- 1073)"
proof -
  have r3: "round64 3 = Finite 3"
    by (simp add: round64_numeral)
  note look = lookup_single_estimator [of 3 3 3]
  note inst = EstimateResources_weighted [OF look, where pf = amd64 and fu = Separate
      and a = 3 and p = 3 and v = "6755399441055743 / 2251799813685248"]
  from inst have entries:
    "\<exists>res. fst (EstimateResources amd64 ''default'' ''test'' (single_estimator 3 3 3)) = Inr res
        \<and> res ResourceCPU = Some (NewMilliQuantity 2999 DecimalSI)
        \<and> res ResourceMemory = Some (NewQuantity 2 BinarySI)
        \<and> res ResourceGPU = Some (NewQuantity 2 DecimalSI)"
    by (simp add: single_history_aggregates [OF r3 r3 r3] amd64_def
        weighted_Separate_3 round64_1000 round64_three_4 int64_def trunc_def)
  from inst weighted_Separate_3
  have bound: "\<bar>6755399441055743 / 2251799813685248 - (0.7 * 3 + 0.3 * 3)\<bar>
       \<le> (0.7 * \<bar>3\<bar> + 0.3 * \<bar>3\<bar>) / 2 ^ 51 + (2 :: real) powi (- 1073)"
    by blast
  from look entries weighted_Separate_3 bound show ?thesis
    by (intro conjI)
qed

lemma GPU_zero_aggregates:
  assumes "\<forall>u \<in> set (History h). GPU u = 0"
  shows "GPU64 (GetAverage h) = Finite 0" and "GPU (GetPeak h) = 0"
proof -
  have "fold (\<lambda>x total. fadd total (Finite x)) (map GPU xs) (Finite 0) = Finite 0"
    if "\<forall>u \<in> set xs. GPU u = 0" for xs :: "ResourceUsage list"
    using that by (induction xs) (simp_all add: round64_0)
  with assms have total: "running_total (map GPU (History h)) = Finite 0"
    by (simp add: running_total_def)
  show "GPU64 (GetAverage h) = Finite 0"
  proof (cases "History h = []")
    case True
    then show ?thesis by (simp add: GetAverage_expand zero_ResourceUsage64_def)
  next
    case False
    then have "2 powi (- 1022) \<le> \<bar>real (length (History h))\<bar>"
      by (cases "History h") (simp_all add: power_int_minus field_simps)
    then have nz: "round64 (real (length (History h))) \<noteq> Finite 0"
      by (rule round64_not_zero)
    have "fdiv (Finite 0) (round64 (real (length (History h)))) = Finite 0"
      using nz round64_not_NaN [of "real (length (History h))"]
      by (cases "round64 (real (length (History h)))") (simp_all add: round64_0)
    with False show ?thesis
      by (simp add: GetAverage_expand total)
  qed
  show "GPU (GetPeak h) = 0"
  proof (cases "History h = []")
    case True
    then show ?thesis by (simp add: GetPeak_expand zero_ResourceUsage_def)
  next
    case False
    then obtain u where "u \<in> set (History h)"
      by (cases "History h") auto
    with assms have "GPU ` set (History h) = {0}"
      by force
    with False show ?thesis by (simp add: GetPeak_expand)
  qed
qed

text \<open>
  Claim C7. The list \<open>EstimateResources\<close> returns has an accelerator entry exactly when the
  accelerator estimate, the \<^verbatim>\<open>float64\<close> the code computes, is greater than 0, and always has
  a CPU and a memory entry. A group whose samples all have \<open>gpu = 0\<close> gets no accelerator
  entry at all.
\<close>

theorem EstimateResources_gpu_entry:
  assumes "DAList.lookup (histories e) (key_of namespace groupName) = Some h"
  shows "\<exists>res. fst (EstimateResources pf namespace groupName e) = Inr res
     \<and> (res ResourceGPU \<noteq> None)
         = fgt (weighted (fuse pf) (GPU64 (GetAverage h)) (Finite (GPU (GetPeak h)))) (Finite 0)
     \<and> res ResourceCPU \<noteq> None
     \<and> res ResourceMemory \<noteq> None
     \<and> ((\<forall>u \<in> set (History h). GPU u = 0) \<longrightarrow> res ResourceGPU = None)"
proof -
  have "\<not> fgt (weighted (fuse pf) (GPU64 (GetAverage h)) (Finite (GPU (GetPeak h)))) (Finite 0)"
    if "\<forall>u \<in> set (History h). GPU u = 0"
    using GPU_zero_aggregates [OF that] by (simp add: weighted_zero)
  then show ?thesis
    using assms by (auto simp: EstimateResources_present resource_names_distinct)
qed

text \<open>
  A group recorded twice without accelerators has no accelerator entry. A group recorded
  with the accelerator counts -13 and 7 has the average -3 and the peak 7; where no
  operation is fused its estimate is \<open>2\<^sup>-\<^sup>5\<^sup>1\<close>, not 0, and it has an accelerator entry, of
  value 0.
\<close>

theorem EstimateResources_gpu_entry_witness:
  "DAList.lookup (histories batch_estimator) (key_of ''default'' ''batch'') = Some batch_history
   \<and> map GPU (History batch_history) = [0, 0]
   \<and> (\<exists>res. fst (EstimateResources amd64 ''default'' ''batch'' batch_estimator) = Inr res
        \<and> res ResourceGPU = None \<and> res ResourceCPU \<noteq> None \<and> res ResourceMemory \<noteq> None)
   \<and> DAList.lookup (histories mixed_estimator) (key_of ''default'' ''test'') = Some mixed_history
   \<and> fgt (weighted Separate (Finite (- 3)) (Finite 7)) (Finite 0)
   \<and> (\<exists>res. fst (EstimateResources amd64 ''default'' ''test'' mixed_estimator) = Inr res
        \<and> res ResourceGPU = Some (NewQuantity 0 DecimalSI))"
proof -
  have gpus: "map GPU (History batch_history) = [0, 0]"
    by (simp add: batch_history_def usage_of_def)
  have zero: "\<forall>u \<in> set (History batch_history). GPU u = 0"
    by (simp add: batch_history_def usage_of_def)
  from EstimateResources_gpu_entry [OF lookup_batch_estimator, where pf = amd64] zero
  have batch: "\<exists>res. fst (EstimateResources amd64 ''default'' ''batch'' batch_estimator) = Inr res
        \<and> res ResourceGPU = None \<and> res ResourceCPU \<noteq> None \<and> res ResourceMemory \<noteq> None"
    by blast
  have pos: "fgt (weighted Separate (Finite (- 3)) (Finite 7)) (Finite 0)"
    by (simp add: weighted_Separate_mixed)
  have "fst (EstimateResources amd64 ''default'' ''test'' mixed_estimator)
      = Inr [ResourceCPU \<mapsto> NewMilliQuantity 0 DecimalSI,
             ResourceMemory \<mapsto> NewQuantity 0 BinarySI,
             ResourceGPU \<mapsto> NewQuantity 0 DecimalSI]"
    by (simp add: EstimateResources_present [OF lookup_mixed_estimator] mixed_history_aggregates
        amd64_def weighted_Separate_mixed weighted_zero round64_1000 round64_0 int64_def
        trunc_def)
  then have mixed: "\<exists>res. fst (EstimateResources amd64 ''default'' ''test'' mixed_estimator) = Inr res
        \<and> res ResourceGPU = Some (NewQuantity 0 DecimalSI)"
    by simp
  from lookup_batch_estimator gpus batch lookup_mixed_estimator pos mixed show ?thesis
    by (intro conjI)
qed

text \<open>
  Claim C9. \<open>GetHistory\<close> returns the estimator it was given, unchanged: no entry is
  created and no history is modified, whether the key is known or not. Its flag is false
  exactly when the registry holds nothing under the key, and its first result is what the
  registry holds.
\<close>

theorem GetHistory_read_only:
  "snd (GetHistory namespace groupName e) = e
   \<and> (snd (fst (GetHistory namespace groupName e)) = False)
       = (DAList.lookup (histories e) (key_of namespace groupName) = None)
   \<and> fst (fst (GetHistory namespace groupName e))
       = DAList.lookup (histories e) (key_of namespace groupName)"
  by (simp add: GetHistory_def split: option.splits)


text \<open>
  Claim C10. Whether \<open>EstimateResources\<close> fails depends on the registry holding the key,
  not on the history holding samples: it fails with the not-found error for a key the
  registry does not hold and succeeds for every key it holds, and for a key whose history is
  empty it returns a CPU entry of 0 milli-cores, a memory entry of 0 bytes and no
  accelerator entry. Such a state arises from an estimator of capacity 0, where \<open>AddUsage\<close>
  evicts the sample it has just appended.
\<close>

theorem EstimateResources_empty_history:
  "(DAList.lookup (histories e) (key_of namespace groupName) = None \<longrightarrow>
      fst (EstimateResources pf namespace groupName e)
        = Inl (NotFoundError (''no history found for '' @ key_of namespace groupName)))
   \<and> (DAList.lookup (histories e) (key_of namespace groupName) = Some h \<longrightarrow>
      \<not> isl (fst (EstimateResources pf namespace groupName e)))
   \<and> (DAList.lookup (histories e) (key_of namespace groupName) = Some h \<and> History h = [] \<longrightarrow>
      fst (EstimateResources pf namespace groupName e)
        = Inr [ResourceCPU \<mapsto> NewMilliQuantity 0 DecimalSI, ResourceMemory \<mapsto> NewQuantity 0 BinarySI])
   \<and> (\<exists>e0 h0. run [Record_Usage now namespace groupName cpu memory gpu] (NewEstimator 0) = Inr e0
        \<and> DAList.lookup (histories e0) (key_of namespace groupName) = Some h0
        \<and> History h0 = []
        \<and> fst (EstimateResources pf namespace groupName e0)
            = Inr [ResourceCPU \<mapsto> NewMilliQuantity 0 DecimalSI, ResourceMemory \<mapsto> NewQuantity 0 BinarySI])"
proof -
  have absent: "fst (EstimateResources pf namespace groupName e)
        = Inl (NotFoundError (''no history found for '' @ key_of namespace groupName))"
    if "DAList.lookup (histories e) (key_of namespace groupName) = None"
    using that by (simp add: EstimateResources_absent)
  have empty: "fst (EstimateResources pf namespace groupName e')
        = Inr [ResourceCPU \<mapsto> NewMilliQuantity 0 DecimalSI, ResourceMemory \<mapsto> NewQuantity 0 BinarySI]"
    if "DAList.lookup (histories e') (key_of namespace groupName) = Some h'" and "History h' = []"
    for e' h'
    using that
    by (simp add: EstimateResources_present GetAverage_expand GetPeak_expand
        zero_ResourceUsage_def zero_ResourceUsage64_def weighted_zero round64_1000 round64_0
        int64_zero)
  have present: "\<not> isl (fst (EstimateResources pf namespace groupName e))"
    if "DAList.lookup (histories e) (key_of namespace groupName) = Some h"
    using that by (simp add: EstimateResources_present)
  let ?h0 = "\<lparr>GroupName = groupName, Namespace = namespace, History = [], maxSize = 0\<rparr>"
  let ?e0 = "\<lparr>histories = DAList.update (key_of namespace groupName) ?h0 DAList.empty, e_maxSize = 0\<rparr>"
  have run0: "run [Record_Usage now namespace groupName cpu memory gpu] (NewEstimator 0) = Inr ?e0"
    by (simp add: RecordUsage_def NewEstimator_def NewGroupHistory_def AddUsage_def Let_def)
  have look0: "DAList.lookup (histories ?e0) (key_of namespace groupName) = Some ?h0"
    by simp
  have "fst (EstimateResources pf namespace groupName ?e0)
        = Inr [ResourceCPU \<mapsto> NewMilliQuantity 0 DecimalSI, ResourceMemory \<mapsto> NewQuantity 0 BinarySI]"
    by (rule empty [OF look0]) simp
  with run0 look0 have "\<exists>e0 h0. run [Record_Usage now namespace groupName cpu memory gpu] (NewEstimator 0) = Inr e0
        \<and> DAList.lookup (histories e0) (key_of namespace groupName) = Some h0
        \<and> History h0 = []
        \<and> fst (EstimateResources pf namespace groupName e0)
            = Inr [ResourceCPU \<mapsto> NewMilliQuantity 0 DecimalSI, ResourceMemory \<mapsto> NewQuantity 0 BinarySI]"
    by (intro exI [of _ ?e0] exI [of _ ?h0]) simp
  with absent empty [of e h] present show ?thesis
    by blast
qed

text \<open>
  The estimator of capacity 0 after one recording: the key recorded has an empty history
  and an all-zero estimate, and a key never recorded is not found.
\<close>

theorem EstimateResources_empty_history_witness:
  "run [Record_Usage 1 ''default'' ''group1'' 100 2048 1] (NewEstimator 0) = Inr empty_estimator
   \<and> DAList.lookup (histories empty_estimator) (key_of ''default'' ''group1'') = Some empty_history
   \<and> History empty_history = []
   \<and> fst (EstimateResources amd64 ''default'' ''group1'' empty_estimator)
       = Inr [ResourceCPU \<mapsto> NewMilliQuantity 0 DecimalSI, ResourceMemory \<mapsto> NewQuantity 0 BinarySI]
   \<and> \<not> isl (fst (EstimateResources amd64 ''default'' ''group1'' empty_estimator))
   \<and> DAList.lookup (histories empty_estimator) (key_of ''default'' ''unknown'') = None
   \<and> fst (EstimateResources amd64 ''default'' ''unknown'' empty_estimator)
       = Inl (NotFoundError ''no history found for default/unknown'')"
proof -
  have h: "History empty_history = []"
    by (simp add: empty_history_def)
  have absent: "DAList.lookup (histories empty_estimator) (key_of ''default'' ''unknown'') = None"
    by (simp add: empty_estimator_def key_of_def DAList.lookup_update)
  from EstimateResources_empty_history
    [where e = empty_estimator and namespace = "''default''" and groupName = "''group1''"
       and pf = amd64 and h = empty_history]
  have present: "fst (EstimateResources amd64 ''default'' ''group1'' empty_estimator)
       = Inr [ResourceCPU \<mapsto> NewMilliQuantity 0 DecimalSI, ResourceMemory \<mapsto> NewQuantity 0 BinarySI]
     \<and> \<not> isl (fst (EstimateResources amd64 ''default'' ''group1'' empty_estimator))"
    using lookup_empty_estimator h by blast
  from EstimateResources_empty_history
    [where e = empty_estimator and namespace = "''default''" and groupName = "''unknown''"
       and pf = amd64 and h = empty_history]
  have "fst (EstimateResources amd64 ''default'' ''unknown'' empty_estimator)
       = Inl (NotFoundError (''no history found for '' @ key_of ''default'' ''unknown''))"
    using absent by blast
  then have missing: "fst (EstimateResources amd64 ''default'' ''unknown'' empty_estimator)
       = Inl (NotFoundError ''no history found for default/unknown'')"
    by (simp add: key_of_def)
  from run_empty_estimator [of 1 100 2048 1] lookup_empty_estimator h present absent missing
  show ?thesis
    by (intro conjI) blast+
qed

subsection \<open>The sweep\<close>

lemma lookup_clean_loop:
  "DAList.lookup (fst (clean_loop cutoff entries hs removed)) key =
     (if \<exists>h. (key, h) \<in> set entries \<and> stale cutoff h then None else DAList.lookup hs key)"
  by (induction entries arbitrary: hs removed) auto

lemma snd_clean_loop:
  "snd (clean_loop cutoff entries hs removed) =
     removed + length (filter (\<lambda>(key, h). stale cutoff h) entries)"
  by (induction entries arbitrary: hs removed) auto

lemma in_impl_of_iff: "(key, h) \<in> set (DAList.impl_of hs) \<longleftrightarrow> DAList.lookup hs key = Some h"
  by (simp add: DAList.lookup.rep_eq)

lemma count_stale:
  "length (filter (\<lambda>(key, h). stale cutoff h) (DAList.impl_of hs)) =
     card {key. \<exists>h. DAList.lookup hs key = Some h \<and> stale cutoff h}"
proof -
  let ?sel = "filter (\<lambda>(key, h). stale cutoff h) (DAList.impl_of hs)"
  have dist: "distinct (map fst ?sel)"
    by (rule distinct_map_fst_filter) simp
  have "{key. \<exists>h. DAList.lookup hs key = Some h \<and> stale cutoff h} = set (map fst ?sel)"
    by (auto simp: in_impl_of_iff [symmetric] image_iff)
  then have "card {key. \<exists>h. DAList.lookup hs key = Some h \<and> stale cutoff h} = length (map fst ?sel)"
    using distinct_card [OF dist] by simp
  then show ?thesis by simp
qed

lemma histories_CleanOldHistory:
  "DAList.lookup (histories (fst (CleanOldHistory now maxAge e))) key =
     (case DAList.lookup (histories e) key of
        None \<Rightarrow> None
      | Some h \<Rightarrow> if stale (Add now (- maxAge)) h then None else Some h)"
  by (cases "clean_loop (Add now (- maxAge)) (DAList.impl_of (histories e)) (histories e) 0")
     (use lookup_clean_loop [of "Add now (- maxAge)" "DAList.impl_of (histories e)" "histories e" 0 key]
      in \<open>auto simp: CleanOldHistory_def Let_def in_impl_of_iff split: option.splits\<close>)

lemma removed_CleanOldHistory:
  "snd (CleanOldHistory now maxAge e) =
     card {key. \<exists>h. DAList.lookup (histories e) key = Some h \<and> stale (Add now (- maxAge)) h}"
  by (cases "clean_loop (Add now (- maxAge)) (DAList.impl_of (histories e)) (histories e) 0")
     (use snd_clean_loop [of "Add now (- maxAge)" "DAList.impl_of (histories e)" "histories e" 0]
      in \<open>simp add: CleanOldHistory_def Let_def count_stale\<close>)

lemma maxSize_CleanOldHistory: "e_maxSize (fst (CleanOldHistory now maxAge e)) = e_maxSize e"
  by (simp add: CleanOldHistory_def Let_def split: prod.splits)


lemma sint_uminus:
  fixes d :: Duration
  assumes "d \<noteq> - (2 ^ 63)"
  shows "sint (- d) = - sint d"
proof -
  have ne: "sint d \<noteq> - (2 ^ 63)"
  proof
    assume "sint d = - (2 ^ 63)"
    then have "word_of_int (sint d) = (word_of_int (- (2 ^ 63)) :: 64 word)"
      by simp
    then have "d = - (2 ^ 63)"
      by simp
    with assms show False by simp
  qed
  have lo: "- (2 ^ 63) \<le> sint d" and hi: "sint d < 2 ^ 63"
    using sint_ge [of d] sint_lt [of d] by simp_all
  have "- d = word_of_int (- sint d)"
    by simp
  then have "sint (- d) = signed_take_bit 63 (- sint d)"
    by (simp only: sint_sbintrunc') simp
  also have "\<dots> = - sint d"
    using ne lo hi by (intro signed_take_bit_int_eq_self) simp_all
  finally show ?thesis .
qed

lemma run_sweep_estimator:
  "run [Record_Usage 0 ''default'' ''group1'' 100 2048 1,
        Record_Usage 169200000000000 ''default'' ''group2'' 200 4096 0] (NewEstimator 10)
     = Inr sweep_estimator"
  by (simp add: scenario_simps sweep_estimator_def old_history_def fresh_history_def)

lemma CleanOldHistory_sweep_estimator:
  "CleanOldHistory 172800000000000 86400000000000 sweep_estimator =
     (sweep_estimator\<lparr>histories := DAList.delete ''default/group1'' (histories sweep_estimator)\<rparr>, 1)"
  by (simp add: CleanOldHistory_def Let_def sweep_estimator_def old_history_def fresh_history_def
      DAList.update.rep_eq DAList.empty.rep_eq stale_def Add_def Before_def usage_of_def)


text \<open>
  What the sweep does, for every duration: it removes exactly the histories that hold a
  sample and whose last sample is older than the cutoff \<^verbatim>\<open>time.Now().Add(-maxAge)\<close>, keeps
  every other entry as it is and returns the number of histories removed. The cutoff is
  \<open>now - maxAge\<close> for every duration but the least one.
\<close>

lemma CleanOldHistory_removes_exactly_stale:
  "(\<forall>key. DAList.lookup (histories (fst (CleanOldHistory now maxAge e))) key =
       (case DAList.lookup (histories e) key of
          None \<Rightarrow> None
        | Some h \<Rightarrow>
            if History h \<noteq> [] \<and> Timestamp (last (History h)) < Add now (- maxAge)
            then None else Some h))
   \<and> snd (CleanOldHistory now maxAge e) =
       card {key. \<exists>h. DAList.lookup (histories e) key = Some h
                    \<and> History h \<noteq> [] \<and> Timestamp (last (History h)) < Add now (- maxAge)}
   \<and> e_maxSize (fst (CleanOldHistory now maxAge e)) = e_maxSize e
   \<and> (maxAge \<noteq> - (2 ^ 63) \<longrightarrow> Add now (- maxAge) = now - sint maxAge)
   \<and> (\<forall>key h. DAList.lookup (histories e) key = Some h \<and> History h = [] \<longrightarrow>
        DAList.lookup (histories (fst (CleanOldHistory now maxAge e))) key = Some h)"
proof -
  have stale: "stale (Add now (- maxAge)) h =
      (History h \<noteq> [] \<and> Timestamp (last (History h)) < Add now (- maxAge))" for h
    by (simp add: stale_def Before_def)
  have look: "DAList.lookup (histories (fst (CleanOldHistory now maxAge e))) key =
       (case DAList.lookup (histories e) key of
          None \<Rightarrow> None
        | Some h \<Rightarrow>
            if History h \<noteq> [] \<and> Timestamp (last (History h)) < Add now (- maxAge)
            then None else Some h)" for key
    by (simp only: histories_CleanOldHistory stale)
  have count: "snd (CleanOldHistory now maxAge e) =
       card {key. \<exists>h. DAList.lookup (histories e) key = Some h
                    \<and> History h \<noteq> [] \<and> Timestamp (last (History h)) < Add now (- maxAge)}"
    by (simp only: removed_CleanOldHistory stale)
  have cutoff: "Add now (- maxAge) = now - sint maxAge" if "maxAge \<noteq> - (2 ^ 63)"
    using sint_uminus [OF that] by (simp add: Add_def)
  have kept: "DAList.lookup (histories (fst (CleanOldHistory now maxAge e))) key = Some h"
    if "DAList.lookup (histories e) key = Some h \<and> History h = []" for key h
    using that by (simp add: look)
  show ?thesis
  proof (intro conjI allI impI)
    show "e_maxSize (fst (CleanOldHistory now maxAge e)) = e_maxSize e"
      by (rule maxSize_CleanOldHistory)
  qed (fact look count, fact count, erule cutoff, erule kept)
qed


text \<open>
  Claim C6 is right and the code departs from it at one duration: for the least duration,
  \<open>-2\<^sup>6\<^sup>3\<close> nanoseconds, the negation in \<^verbatim>\<open>time.Now().Add(-maxAge)\<close> wraps around, and the
  cutoff is \<open>now - 2\<^sup>6\<^sup>3\<close> instead of \<open>now - maxAge = now + 2\<^sup>6\<^sup>3\<close>. At \<open>now\<close> = 48 hours the
  group last recorded at time 0 holds a sample older than \<open>now - maxAge\<close>, yet the sweep keeps
  it and reports no removal.
\<close>

theorem CleanOldHistory_least_duration:
  "DAList.lookup (histories sweep_estimator) ''default/group1'' = Some old_history
   \<and> History old_history \<noteq> []
   \<and> Timestamp (last (History old_history)) < 172800000000000 - sint (- (2 ^ 63) :: Duration)
   \<and> Add 172800000000000 (- (- (2 ^ 63))) = 172800000000000 - 2 ^ 63
   \<and> snd (CleanOldHistory 172800000000000 (- (2 ^ 63)) sweep_estimator) = 0
   \<and> DAList.lookup
        (histories (fst (CleanOldHistory 172800000000000 (- (2 ^ 63)) sweep_estimator)))
        ''default/group1'' = Some old_history"
  by (simp add: CleanOldHistory_def Let_def sweep_estimator_def old_history_def fresh_history_def
      DAList.update.rep_eq DAList.empty.rep_eq stale_def Add_def Before_def usage_of_def)

subsection \<open>Which keys the registry holds\<close>





lemma e_maxSize_run: "run calls e0 = Inr e \<Longrightarrow> e_maxSize e = e_maxSize e0"
proof (induction calls arbitrary: e0)
  case Nil
  then show ?case by simp
next
  case (Cons c calls)
  show ?case
  proof (cases c)
    case (Record_Usage now namespace groupName cpu memory gpu)
    with Cons.prems obtain e1
      where 1: "RecordUsage now namespace groupName cpu memory gpu e0 = Inr e1"
        and 2: "run calls e1 = Inr e"
      by (auto split: sum.splits)
    from RecordUsage_Inr [OF 1] have "e_maxSize e1 = e_maxSize e0" by auto
    with Cons.IH [OF 2] show ?thesis by simp
  next
    case (Clean_Old_History now maxAge)
    with Cons.prems have "run calls (fst (CleanOldHistory now maxAge e0)) = Inr e"
      by simp
    from Cons.IH [OF this] show ?thesis by (simp add: maxSize_CleanOldHistory)
  qed
qed







subsection \<open>Truncation\<close>

lemma round64_doc_1: "round64 (1182194902184755125 / 1125899906842624) = Finite (1050)"
  by (rule round64_pos [where e = 10 and n = 4617948836659200]) (simp_all add: rne_def)

lemma round64_doc_2: "round64 (675539944105574375 / 1125899906842624) = Finite (600)"
  by (rule round64_pos [where e = 9 and n = 5277655813324800]) (simp_all add: rne_def)

lemma round64_doc_3: "round64 (1650) = Finite (1650)"
  by (rule round64_pos [where e = 10 and n = 7256776743321600]) (simp_all add: rne_def)

lemma round64_doc_4: "round64 (9457559217478041 / 2199023255552) = Finite (1182194902184755 / 274877906944)"
  by (rule round64_pos [where e = 12 and n = 4728779608739020]) (simp_all add: rne_def)

lemma round64_doc_5: "round64 (5404319552844595 / 2199023255552) = Finite (5404319552844595 / 2199023255552)"
  by (rule round64_pos [where e = 11 and n = 5404319552844595]) (simp_all add: rne_def)

lemma round64_doc_6: "round64 (14861878770322635 / 2199023255552) = Finite (3715469692580659 / 549755813888)"
  by (rule round64_pos [where e = 12 and n = 7430939385161318]) (simp_all add: rne_def)

lemma round64_doc_7: "round64 (5 / 3) = Finite (7505999378950827 / 4503599627370496)"
  by (rule round64_pos [where e = 0 and n = 7505999378950827]) (simp_all add: rne_def)

lemma round64_doc_8: "round64 (23662811204260281710911830429969 / 20282409603651670423947251286016) = Finite (5254199565265579 / 4503599627370496)"
  by (rule round64_pos [where e = 0 and n = 5254199565265579]) (simp_all add: rne_def)

lemma round64_doc_9: "round64 (5404319552844595 / 9007199254740992) = Finite (5404319552844595 / 9007199254740992)"
  by (rule round64_pos [where e = "- 1" and n = 5404319552844595]) (simp_all add: rne_def)

lemma round64_doc_10: "round64 (15912718683375753 / 9007199254740992) = Finite (1989089835421969 / 1125899906842624)"
  by (rule round64_pos [where e = 0 and n = 7956359341687876]) (simp_all add: rne_def)

lemma lookup_doc_estimator:
  "DAList.lookup (histories doc_estimator) (key_of ''default'' ''ml-training'') = Some doc_history"
  by (simp add: doc_estimator_def key_of_def)

lemma run_doc_estimator:
  "run [Record_Usage 1 ''default'' ''ml-training'' 1000 4096 1,
        Record_Usage 2 ''default'' ''ml-training'' 1500 6144 2,
        Record_Usage 3 ''default'' ''ml-training'' 2000 8192 2] (NewEstimator 100)
     = Inr doc_estimator"
  by (simp add: scenario_simps doc_estimator_def doc_history_def)

lemma doc_history_aggregates:
  "GetAverage doc_history
     = \<lparr>Timestamp64 = zero_Time, CPU64 = Finite 1500, Memory64 = Finite 6144,
        GPU64 = Finite (7505999378950827 / 4503599627370496)\<rparr>"
  "GetPeak doc_history = \<lparr>Timestamp = 1, CPU = 2000, Memory = 8192, GPU = 2\<rparr>"
  by (simp_all add: GetAverage_expand GetPeak_expand doc_history_def usage_of_def
      running_total_def round64_1 round64_numeral round64_doc_7)

lemma doc_estimates:
  "weighted Separate (Finite 1500) (Finite 2000) = Finite 1650"
  "weighted Separate (Finite 6144) (Finite 8192) = Finite (3715469692580659 / 549755813888)"
  "weighted Separate (Finite (7505999378950827 / 4503599627370496)) (Finite 2)
     = Finite (1989089835421969 / 1125899906842624)"
  by (simp_all add: weighted_def round64_07 round64_03 round64_numeral round64_doc_1
      round64_doc_2 round64_doc_4 round64_doc_5 round64_doc_6 round64_doc_8 round64_doc_9
      round64_doc_10)

lemma round64_test_1: "round64 (4000 / 3) = Finite (5864062014805333 / 4398046511104)"
  by (rule round64_pos [where e = 10 and n = 5864062014805333]) (simp_all add: rne_def)

lemma round64_test_2: "round64 (18486571253328343214841272397551 / 19807040628566084398385987584) = Finite (4104843410363733 / 4398046511104)"
  by (rule round64_pos [where e = 9 and n = 8209686820727466]) (simp_all add: rne_def)

lemma round64_test_3: "round64 (675539944105574375 / 1125899906842624) = Finite (600)"
  by (rule round64_pos [where e = 9 and n = 5277655813324800]) (simp_all add: rne_def)

lemma round64_test_4: "round64 (6743671317026133 / 4398046511104) = Finite (6743671317026133 / 4398046511104)"
  by (rule round64_pos [where e = 10 and n = 6743671317026133]) (simp_all add: rne_def)

lemma round64_test_5: "round64 (8000 / 3) = Finite (5864062014805333 / 2199023255552)"
  by (rule round64_pos [where e = 11 and n = 5864062014805333]) (simp_all add: rne_def)

lemma round64_test_6: "round64 (18486571253328343214841272397551 / 9903520314283042199192993792) = Finite (4104843410363733 / 2199023255552)"
  by (rule round64_pos [where e = 10 and n = 8209686820727466]) (simp_all add: rne_def)

lemma round64_test_7: "round64 (675539944105574375 / 562949953421312) = Finite (1200)"
  by (rule round64_pos [where e = 10 and n = 5277655813324800]) (simp_all add: rne_def)

lemma round64_test_8: "round64 (6743671317026133 / 2199023255552) = Finite (6743671317026133 / 2199023255552)"
  by (rule round64_pos [where e = 11 and n = 6743671317026133]) (simp_all add: rne_def)

lemma round64_test_9: "round64 (4 / 3) = Finite (6004799503160661 / 4503599627370496)"
  by (rule round64_pos [where e = 0 and n = 6004799503160661]) (simp_all add: rne_def)

lemma round64_test_10: "round64 (18930248963408223477217620848367 / 20282409603651670423947251286016) = Finite (8406719304424925 / 9007199254740992)"
  by (rule round64_pos [where e = "- 1" and n = 8406719304424925]) (simp_all add: rne_def)

lemma round64_test_11: "round64 (5404319552844595 / 9007199254740992) = Finite (5404319552844595 / 9007199254740992)"
  by (rule round64_pos [where e = "- 1" and n = 5404319552844595]) (simp_all add: rne_def)

lemma round64_test_12: "round64 (863189928579345 / 562949953421312) = Finite (863189928579345 / 562949953421312)"
  by (rule round64_pos [where e = 0 and n = 6905519428634760]) (simp_all add: rne_def)

lemma round64_test_13: "round64 (842958914628266625 / 549755813888) = Finite (6585616520533333 / 4294967296)"
  by (rule round64_pos [where e = 20 and n = 6585616520533333]) (simp_all add: rne_def)


lemma test_history_aggregates:
  "GetAverage test_history
     = \<lparr>Timestamp64 = zero_Time, CPU64 = Finite (5864062014805333 / 4398046511104),
        Memory64 = Finite (5864062014805333 / 2199023255552),
        GPU64 = Finite (6004799503160661 / 4503599627370496)\<rparr>"
  "GetPeak test_history = \<lparr>Timestamp = 1, CPU = 2000, Memory = 4000, GPU = 2\<rparr>"
  by (simp_all add: GetAverage_expand GetPeak_expand test_history_def usage_of_def
      running_total_def round64_1 round64_numeral round64_test_1 round64_test_5 round64_test_9)

lemma test_estimates:
  "weighted Separate (Finite (5864062014805333 / 4398046511104)) (Finite 2000)
     = Finite (6743671317026133 / 4398046511104)"
  "weighted Separate (Finite (5864062014805333 / 2199023255552)) (Finite 4000)
     = Finite (6743671317026133 / 2199023255552)"
  "weighted Separate (Finite (6004799503160661 / 4503599627370496)) (Finite 2)
     = Finite (863189928579345 / 562949953421312)"
  by (simp_all add: weighted_def round64_07 round64_03 round64_test_2 round64_test_3
      round64_test_4 round64_test_6 round64_test_7 round64_test_8 round64_test_10
      round64_test_11 round64_test_12)

lemma test_result:
  "fst (EstimateResources amd64 ''default'' ''test'' test_estimator)
     = Inr [ResourceCPU \<mapsto> NewMilliQuantity 1533333 DecimalSI,
            ResourceMemory \<mapsto> NewQuantity 3066 BinarySI,
            ResourceGPU \<mapsto> NewQuantity 1 DecimalSI]"
  by (simp add: EstimateResources_present [OF lookup_test_estimator] test_history_aggregates
      amd64_def test_estimates round64_1000 round64_test_13 int64_def trunc_def)

text \<open>
  Claim C4 is right by the package's documentation, whose example has an estimate of about
  1.8 accelerators that ``rounds to 2'', and the code departs from it: the conversion
  \<^verbatim>\<open>int64(x)\<close> discards the fraction. On every platform one sample of \<open>1/1024\<close> cores has the
  estimate \<open>1/1024\<close>, which is 0.9765625 milli-cores, and is reported as 0 milli-cores, not 1.
  Where no operation is fused, one sample of 0.375 cores gives 374.99999999999994
  milli-cores and is reported as 374, not 375; and the example of the documentation gives
  1.7666666666666666 accelerators and is reported as 1, not 2. The scenario of the claim holds
  of the code: after (1000, 2000, 1) twice and (2000, 4000, 2) once the CPU entry is 1533333
  milli-cores, within 100 of 1533330, and the memory entry is 3066 bytes.
\<close>

theorem EstimateResources_truncates_not_rounds:
  "estimate_after pf [Record_Usage 1 ''default'' ''test'' (1 / 1024) 0 0] ''default'' ''test''
       (NewEstimator 10)
     = Inr [ResourceCPU \<mapsto> NewMilliQuantity 0 DecimalSI, ResourceMemory \<mapsto> NewQuantity 0 BinarySI]
   \<and> fmul (weighted (fuse pf) (Finite (1 / 1024)) (Finite (1 / 1024))) (round64 1000)
       = Finite (125 / 128)
   \<and> round (125 / 128 :: real) = 1
   \<and> estimate_after amd64 [Record_Usage 1 ''default'' ''test'' (3 / 8) 0 0] ''default'' ''test''
       (NewEstimator 10)
     = Inr [ResourceCPU \<mapsto> NewMilliQuantity 374 DecimalSI, ResourceMemory \<mapsto> NewQuantity 0 BinarySI]
   \<and> fmul (weighted Separate (Finite (3 / 8)) (Finite (3 / 8))) (round64 1000)
       = Finite (6597069766655999 / 17592186044416)
   \<and> round (6597069766655999 / 17592186044416 :: real) = 375
   \<and> estimate_after amd64
        [Record_Usage 1 ''default'' ''ml-training'' 1000 4096 1,
         Record_Usage 2 ''default'' ''ml-training'' 1500 6144 2,
         Record_Usage 3 ''default'' ''ml-training'' 2000 8192 2]
        ''default'' ''ml-training'' (NewEstimator 100)
     = Inr [ResourceCPU \<mapsto> NewMilliQuantity 1650000 DecimalSI,
            ResourceMemory \<mapsto> NewQuantity 6758 BinarySI,
            ResourceGPU \<mapsto> NewQuantity 1 DecimalSI]
   \<and> round (1989089835421969 / 1125899906842624 :: real) = 2
   \<and> estimate_after amd64
        [Record_Usage 1 ''default'' ''test'' 1000 2000 1,
         Record_Usage 2 ''default'' ''test'' 1000 2000 1,
         Record_Usage 3 ''default'' ''test'' 2000 4000 2]
        ''default'' ''test'' (NewEstimator 10)
     = Inr [ResourceCPU \<mapsto> NewMilliQuantity 1533333 DecimalSI,
            ResourceMemory \<mapsto> NewQuantity 3066 BinarySI,
            ResourceGPU \<mapsto> NewQuantity 1 DecimalSI]
   \<and> \<bar>sint (1533333 :: 64 word) - 1533330\<bar> \<le> 100"
proof -
  have r0: "round64 0 = Finite 0"
    by (rule round64_0)
  have rm: "round64 (1 / 1024) = Finite (1 / 1024)"
    by (rule round64_exact [where m = 1 and q = "- 10"]) simp_all
  have r38: "round64 (3 / 8) = Finite (3 / 8)"
    by (rule round64_exact [where m = 3 and q = "- 3"]) simp_all
  have m1000: "round64 (125 / 128) = Finite (125 / 128)"
    by (rule round64_exact [where m = 125 and q = "- 7"]) simp_all
  have milli_x1000: "fmul (weighted (fuse pf) (Finite (1 / 1024)) (Finite (1 / 1024))) (round64 1000)
       = Finite (125 / 128)"
    by (simp add: weighted_milli round64_1000 m1000)
  have milli: "fst (EstimateResources pf ''default'' ''test'' (single_estimator (1 / 1024) 0 0))
     = Inr [ResourceCPU \<mapsto> NewMilliQuantity 0 DecimalSI, ResourceMemory \<mapsto> NewQuantity 0 BinarySI]"
    by (simp add: EstimateResources_present [OF lookup_single_estimator [of "1 / 1024" 0 0]]
        single_history_aggregates [OF rm r0 r0] milli_x1000 weighted_zero int64_def trunc_def)
  have eighths_x1000: "fmul (weighted Separate (Finite (3 / 8)) (Finite (3 / 8))) (round64 1000)
       = Finite (6597069766655999 / 17592186044416)"
    by (simp add: weighted_Separate_three_eighths round64_1000 round64_three_eighths_8)
  have eighths: "fst (EstimateResources amd64 ''default'' ''test'' (single_estimator (3 / 8) 0 0))
     = Inr [ResourceCPU \<mapsto> NewMilliQuantity 374 DecimalSI, ResourceMemory \<mapsto> NewQuantity 0 BinarySI]"
    by (simp add: EstimateResources_present [OF lookup_single_estimator [of "3 / 8" 0 0]]
        single_history_aggregates [OF r38 r0 r0] amd64_def eighths_x1000 weighted_zero
        int64_def trunc_def)
  have doc: "fst (EstimateResources amd64 ''default'' ''ml-training'' doc_estimator)
     = Inr [ResourceCPU \<mapsto> NewMilliQuantity 1650000 DecimalSI,
            ResourceMemory \<mapsto> NewQuantity 6758 BinarySI,
            ResourceGPU \<mapsto> NewQuantity 1 DecimalSI]"
    by (simp add: EstimateResources_present [OF lookup_doc_estimator] doc_history_aggregates
        amd64_def doc_estimates round64_1000 round64_numeral int64_def trunc_def)
  have rounds: "round (125 / 128 :: real) = 1"
    "round (6597069766655999 / 17592186044416 :: real) = 375"
    "round (1989089835421969 / 1125899906842624 :: real) = 2"
    by (simp_all add: round_def)
  have near: "\<bar>sint (1533333 :: 64 word) - 1533330\<bar> \<le> 100"
    by simp
  from milli eighths doc milli_x1000 eighths_x1000 rounds test_result near show ?thesis
    by (simp only: estimate_after_def run_single_estimator run_doc_estimator run_test_estimator
        sum.case simp_thms)
qed

end
